theory Spec2Isabelle
  imports Main "HOL-Library.Sublist"
begin

section \<open>Values, errors, requests and responses\<close>

text \<open>
  A shallow embedding of \<^verbatim>\<open>packages/rest/src/handlers.ts\<close>.

  JavaScript values that travel through the handlers are JSON-like values; \<open>JUndefined\<close>
  is JavaScript's \<^verbatim>\<open>undefined\<close>.
\<close>

datatype json =
    JUndefined
  | JNull
  | JBool bool
  | JNum int
  | JStr string
  | JArr "json list"
  | JObj "(string \<times> json) list"

text \<open>
  Modelled from the spec: the class \<^verbatim>\<open>RestError\<close> (\<^verbatim>\<open>./RestError.js\<close>) is not part of the
  sources. \<^verbatim>\<open>catchError\<close> reads the three fields \<open>statusCode\<close>, \<open>errorData\<close> and
  \<open>errorMessage\<close> of an instance; the spec (sections 4.2 and 7) fixes the status of an
  \<^emph>\<open>Unauthorized\<close> error as 401 and of a \<^emph>\<open>Forbidden\<close> error as 403, the latter without data.
  The message field holds the argument the factory was called with (\<open>JUndefined\<close> when the
  call passes none); no statement below depends on the text of a message.
\<close>

record rest_error =
  statusCode :: int
  errorData :: json
  errorMessage :: json

definition unauthorized :: "json \<Rightarrow> rest_error" where
  "unauthorized message = \<lparr>statusCode = 401, errorData = JUndefined, errorMessage = message\<rparr>"

definition forbidden :: rest_error where
  "forbidden = \<lparr>statusCode = 403, errorData = JUndefined, errorMessage = JUndefined\<rparr>"

text \<open>
  A thrown JavaScript value: either an instance of \<^verbatim>\<open>RestError\<close> or any other error, of
  which only the message is kept. \<^verbatim>\<open>err instanceof RestError\<close> is the test for the first
  constructor.
\<close>

datatype thrown = RestErr rest_error | JsError string

text \<open>
  The request state the handlers read and write. \<open>req_method\<close> is \<^verbatim>\<open>req.method\<close>; \<open>entity\<close> is
  the JSON entity the request carries, as the bytes received, or \<open>None\<close> when it carries none;
  \<open>body\<close> and \<open>rawBody\<close> are \<^verbatim>\<open>undefined\<close> until the body parser has set them.
\<close>

record auth =
  sub :: string
  name :: string
  aud :: string
  scopes :: "string list option"

record request =
  req_method :: string
  headers :: "string \<rightharpoonup> string"
  entity :: "string option"
  body :: json
  params :: "(string \<times> string) list"
  rawBody :: "string option"
  req_auth :: "auth option"

text \<open>
  The response: the status and the value a handler gives to \<^verbatim>\<open>res.status(...).json(...)\<close>,
  and, once the framework has sent it (\<^verbatim>\<open>res.headersSent\<close>), the status the client is sent
  and the value whose JSON text is the body, \<open>None\<close> when no body is sent.
\<close>

record response =
  status :: int
  jsonBody :: "json option"
  headersSent :: bool

text \<open>The argument a controller is constructed from (lines 58 to 64).\<close>

record invocation =
  data :: json
  inv_auth :: "auth option"
  pathParams :: "(string \<times> string) list"
  inv_rawBody :: "string option"
  inv_headers :: "string \<rightharpoonup> string"

text \<open>
  A controller class (\<^verbatim>\<open>typeof BaseController\<close>): its static members and, as one function,
  construction followed by \<^verbatim>\<open>execute()\<close>, which returns the payload or throws.
\<close>

record controller =
  isPublic :: bool
  scope :: "string option"
  successStatusCode :: int
  execute :: "invocation \<Rightarrow> thrown + json"

text \<open>The claims of a verified token as the handler reads them (lines 30 and 38 to 40).\<close>

record jwt_payload =
  payload_sub :: string
  payload_name :: string
  payload_aud :: string
  payload_scope :: "string option"

datatype jwks = RemoteJWKSet string | LocalJWKSet json

text \<open>
  What the handlers call outside this file: the \<^verbatim>\<open>URL\<close> constructor (which throws on a
  string that is no URL), \<^verbatim>\<open>JSON.parse\<close>, \<^verbatim>\<open>jwtVerify\<close> of the jose library (which throws an
  error of its own, never a \<^verbatim>\<open>RestError\<close>, or returns the payload), the directory listing
  \<^verbatim>\<open>glob('**/*.js', {cwd})\<close>, the dynamic \<^verbatim>\<open>import\<close> of a controller module, and
  \<^verbatim>\<open>openApiPathToExpressPath\<close> of \<^verbatim>\<open>./util.js\<close>, which is not part of the sources either.
  Of the framework: \<open>parseJsonBody\<close> is what the body parser \<^verbatim>\<open>json(...)\<close> makes of the bytes
  of a JSON entity, the parsed value or the error it passes on (malformed text, a value that
  is neither object nor array, an entity that is too large); \<open>validates\<close> is the comparison of
  the validators of a conditional request with the response about to be sent.
\<close>

record env =
  validURL :: "string \<Rightarrow> bool"
  jsonParse :: "string \<Rightarrow> string + json"
  jwtVerify :: "string option \<Rightarrow> jwks \<Rightarrow> string + jwt_payload"
  glob_js :: "string \<Rightarrow> string list"
  importDefault :: "string \<Rightarrow> string + controller"
  openApiPathToExpressPath :: "string \<Rightarrow> string"
  parseJsonBody :: "string \<Rightarrow> string + json"
  validates :: "request \<Rightarrow> response \<Rightarrow> bool"

section \<open>String operations of JavaScript\<close>

text \<open>\<^verbatim>\<open>s.split(d)\<close> for a one-character separator: never empty, \<^verbatim>\<open>''.split(' ')\<close> is \<^verbatim>\<open>['']\<close>.\<close>

fun js_split :: "char \<Rightarrow> string \<Rightarrow> string list" where
  "js_split d [] = [[]]"
| "js_split d (c # cs) =
     (if c = d then [] # js_split d cs
      else (case js_split d cs of
              [] \<Rightarrow> [[c]]
            | w # ws \<Rightarrow> (c # w) # ws))"

text \<open>\<^verbatim>\<open>parts.join(sep)\<close>.\<close>

fun join :: "string \<Rightarrow> string list \<Rightarrow> string" where
  "join sep [] = []"
| "join sep [p] = p"
| "join sep (p # q # ps) = p @ sep @ join sep (q # ps)"

text \<open>\<^verbatim>\<open>s.replace(pat, rep)\<close> with a string pattern: the first occurrence only.\<close>

fun replaceFirst :: "string \<Rightarrow> string \<Rightarrow> string \<Rightarrow> string" where
  "replaceFirst pat rep [] = (if pat = [] then rep else [])"
| "replaceFirst pat rep (c # cs) =
     (if prefix pat (c # cs) then rep @ drop (length pat) (c # cs)
      else c # replaceFirst pat rep cs)"

text \<open>
  \<^verbatim>\<open>s.toLowerCase()\<close> on the letters A to Z. Characters are bytes here; outside ASCII,
  JavaScript lowers no character to one of the letters of \<^verbatim>\<open>get\<close>, \<^verbatim>\<open>post\<close> and \<^verbatim>\<open>patch\<close>,
  the only strings a lowered name is compared with.
\<close>

definition lowerChar :: "char \<Rightarrow> char" where
  "lowerChar c =
     (case map_of (zip ''ABCDEFGHIJKLMNOPQRSTUVWXYZ'' ''abcdefghijklmnopqrstuvwxyz'') c of
        None \<Rightarrow> c
      | Some l \<Rightarrow> l)"

definition toLowerCase :: "string \<Rightarrow> string" where
  "toLowerCase s = map lowerChar s"

text \<open>Truthiness of a \<^verbatim>\<open>string | undefined\<close>: \<^verbatim>\<open>undefined\<close> and \<^verbatim>\<open>''\<close> are falsy.\<close>

fun truthy :: "string option \<Rightarrow> bool" where
  "truthy None = False"
| "truthy (Some s) = (s \<noteq> [])"

text \<open>\<^verbatim>\<open>a || b\<close> on such values.\<close>

definition js_or :: "string option \<Rightarrow> string option \<Rightarrow> string option" where
  "js_or a b = (if truthy a then a else b)"

text \<open>\<^verbatim>\<open>scopes?.includes(s)\<close>, read as a condition: \<^verbatim>\<open>undefined\<close> is falsy.\<close>

fun js_includes :: "string list option \<Rightarrow> string \<Rightarrow> bool" where
  "js_includes None s = False"
| "js_includes (Some xs) s = (s \<in> set xs)"

text \<open>
  \<^verbatim>\<open>JSON.parse(v)\<close>: the argument is converted to a string first, and \<^verbatim>\<open>undefined\<close> becomes
  the text \<^verbatim>\<open>undefined\<close>, which is no JSON, so the call throws a \<^verbatim>\<open>SyntaxError\<close>.
\<close>

definition JSON_parse :: "env \<Rightarrow> string option \<Rightarrow> thrown + json" where
  "JSON_parse E v =
     (case v of
        None \<Rightarrow> Inl (JsError ''SyntaxError: undefined is not valid JSON'')
      | Some s \<Rightarrow> (case jsonParse E s of Inl m \<Rightarrow> Inl (JsError m) | Inr doc \<Rightarrow> Inr doc))"

section \<open>The error translator\<close>

text \<open>
  \<^verbatim>\<open>catchError\<close> (lines 124 to 141): the status and the value it gives to
  \<^verbatim>\<open>res.status(...).json(...)\<close>. What the framework then sends is \<open>send\<close> below.
\<close>

definition catchError :: "thrown \<Rightarrow> response \<Rightarrow> response" where
  "catchError err res =
     (case err of
        RestErr e \<Rightarrow>
          res\<lparr>status := statusCode e,
              jsonBody := Some (JObj [(''error'',
                 JObj [(''data'', errorData e), (''message'', errorMessage e)])])\<rparr>
      | JsError m \<Rightarrow>
          res\<lparr>status := 500,
              jsonBody := Some (JObj [(''error'',
                 JObj [(''message'', JStr ''Internal error.'')])])\<rparr>)"

section \<open>The framework's side of a response and of the body parser\<close>

text \<open>
  The statuses whose response carries no body: Node sends none for a status below 200, for
  204 and for 304, and \<^verbatim>\<open>res.send\<close> of Express none for 205.
\<close>

definition bodyless :: "int \<Rightarrow> bool" where
  "bodyless code = (code < 200 \<or> code = 204 \<or> code = 205 \<or> code = 304)"

text \<open>
  \<^verbatim>\<open>req.fresh\<close>, read by \<^verbatim>\<open>res.send\<close>: a \<^verbatim>\<open>GET\<close> or \<^verbatim>\<open>HEAD\<close> request that carries a validator
  (\<^verbatim>\<open>If-None-Match\<close> or \<^verbatim>\<open>If-Modified-Since\<close>) which the response, of status 2xx or 304,
  validates.
\<close>

definition fresh :: "env \<Rightarrow> request \<Rightarrow> response \<Rightarrow> bool" where
  "fresh E req written =
     ((req_method req = ''GET'' \<or> req_method req = ''HEAD'')
      \<and> (200 \<le> status written \<and> status written < 300 \<or> status written = 304)
      \<and> (truthy (headers req ''if-none-match'') \<or> truthy (headers req ''if-modified-since''))
      \<and> validates E req written)"

text \<open>
  \<^verbatim>\<open>res.status(code).json(value)\<close> of Express 5, for the response \<open>res\<close> as it stands and the
  status and value \<open>written\<close> by the handler. \<^verbatim>\<open>res.status\<close> throws a \<^verbatim>\<open>RangeError\<close> for a status
  outside 100 to 999; \<^verbatim>\<open>res.json\<close> throws when the response has been sent already; a fresh
  request is answered 304; no body is sent for a bodyless status, to a \<^verbatim>\<open>HEAD\<close> request, or
  for the value \<^verbatim>\<open>undefined\<close>, which has no JSON text.
\<close>

definition send :: "env \<Rightarrow> request \<Rightarrow> response \<Rightarrow> response \<Rightarrow> thrown + response" where
  "send E req res written =
     (if status written < 100 \<or> 999 < status written then
        Inl (JsError ''RangeError: Invalid status code'')
      else if headersSent res then
        Inl (JsError ''Error: Cannot set headers after they are sent to the client'')
      else
        (let code = (if fresh E req written then 304 else status written) in
         Inr (written\<lparr>status := code,
                jsonBody := (if bodyless code \<or> req_method req = ''HEAD''
                                \<or> jsonBody written = Some JUndefined
                             then None else jsonBody written),
                headersSent := True\<rparr>)))"

text \<open>
  The body parser of lines 76 to 82, registered before every route. A request without a
  JSON entity passes untouched. Otherwise the parser reads the bytes, the \<^verbatim>\<open>verify\<close> callback
  stores them as \<^verbatim>\<open>req.rawBody\<close>, and the parsed value becomes \<^verbatim>\<open>req.body\<close>; when the parser
  fails it passes its error on, which is no \<^verbatim>\<open>RestError\<close>.
\<close>

definition expressJson :: "env \<Rightarrow> request \<Rightarrow> thrown + request" where
  "expressJson E req =
     (case entity req of
        None \<Rightarrow> Inr req
      | Some buf \<Rightarrow>
          (case parseJsonBody E buf of
             Inl m \<Rightarrow> Inl (JsError m)
           | Inr v \<Rightarrow> Inr (req\<lparr>body := v, rawBody := Some buf\<rparr>)))"

section \<open>The auth handler\<close>

text \<open>
  \<^verbatim>\<open>const [tokenType, token] = authorization.split(' ')\<close> (line 17): a missing element is
  \<^verbatim>\<open>undefined\<close>.
\<close>

definition tokenType :: "string \<Rightarrow> string option" where
  "tokenType authorization =
     (case js_split CHR '' '' authorization of [] \<Rightarrow> None | t # _ \<Rightarrow> Some t)"

definition token :: "string \<Rightarrow> string option" where
  "token authorization =
     (case js_split CHR '' '' authorization of t # k # _ \<Rightarrow> Some k | _ \<Rightarrow> None)"

text \<open>
  Lines 22 to 27: the key set. In the second branch the argument of \<^verbatim>\<open>JSON.parse\<close> is the
  variable \<^verbatim>\<open>jwts\<close> declared in line 22, which has no value yet, and not \<^verbatim>\<open>options.jwts\<close>.
\<close>

definition keySet :: "env \<Rightarrow> string \<Rightarrow> thrown + jwks" where
  "keySet E options_jwts =
     (if prefix ''http'' options_jwts then
        (if validURL E options_jwts then Inr (RemoteJWKSet options_jwts)
         else Inl (JsError ''TypeError: Invalid URL''))
      else
        (case JSON_parse E None of
           Inl e \<Rightarrow> Inl e
         | Inr doc \<Rightarrow> Inr (LocalJWKSet doc)))"

text \<open>
  \<^verbatim>\<open>req.header('x-personate-sub') || req.auth.sub\<close> (line 45): the header when it is a
  non-empty string, the token's subject otherwise.
\<close>

definition personate :: "string option \<Rightarrow> string \<Rightarrow> string" where
  "personate header own =
     (case header of None \<Rightarrow> own | Some h \<Rightarrow> if h \<noteq> [] then h else own)"

text \<open>
  The body of the \<^verbatim>\<open>try\<close> block (lines 22 to 48). \<open>Inr\<close> is the call of \<^verbatim>\<open>next()\<close> with the
  request as the handler leaves it; \<open>Inl\<close> is what the block throws. The cast of
  \<^verbatim>\<open>payload.scope\<close> to \<^verbatim>\<open>string | undefined\<close> is taken at its word.
\<close>

definition verifyBlock ::
    "env \<Rightarrow> string \<Rightarrow> string option \<Rightarrow> string option \<Rightarrow> request \<Rightarrow> thrown + request" where
  "verifyBlock E options_jwts options_scope tok req =
     (case keySet E options_jwts of
        Inl e \<Rightarrow> Inl e
      | Inr jwts \<Rightarrow>
          (case jwtVerify E tok jwts of
             Inl m \<Rightarrow> Inl (JsError m)
           | Inr payload \<Rightarrow>
               (let scopes = map_option (js_split CHR '' '') (payload_scope payload) in
                if (case options_scope of
                      None \<Rightarrow> False
                    | Some s \<Rightarrow> s \<noteq> [] \<and> \<not> js_includes scopes s)
                then Inl (RestErr forbidden)
                else
                  (let a = \<lparr>sub = payload_sub payload, name = payload_name payload,
                             aud = payload_aud payload, scopes = scopes\<rparr>;
                       a' = (if js_includes scopes ''*:admin''
                             then a\<lparr>sub := personate (headers req ''x-personate-sub'') (sub a)\<rparr>
                             else a)
                   in Inr (req\<lparr>req_auth := Some a'\<rparr>)))))"

text \<open>
  \<^verbatim>\<open>createAuthHandler\<close> (lines 12 to 55), applied to a request: the two checks of the
  header, the \<^verbatim>\<open>try\<close> block, and the \<^verbatim>\<open>catch\<close> clause of lines 49 to 54.
\<close>

definition createAuthHandler ::
    "env \<Rightarrow> string \<Rightarrow> string option \<Rightarrow> request \<Rightarrow> thrown + request" where
  "createAuthHandler E options_jwts options_scope req =
     (case headers req ''authorization'' of
        None \<Rightarrow> Inl (RestErr (unauthorized (JStr ''Authorization header is required.'')))
      | Some authorization \<Rightarrow>
          if authorization = [] then
            Inl (RestErr (unauthorized (JStr ''Authorization header is required.'')))
          else if tokenType authorization \<noteq> Some ''Bearer'' then
            Inl (RestErr (unauthorized (JStr ''Authorization token type is unsupported.'')))
          else
            (case verifyBlock E options_jwts options_scope (token authorization) req of
               Inl error \<Rightarrow>
                 (case error of
                    RestErr e \<Rightarrow> Inl (RestErr e)
                  | JsError m \<Rightarrow> Inl (RestErr (unauthorized JUndefined)))
             | Inr req' \<Rightarrow> Inr req'))"

section \<open>The dispatch handler\<close>

text \<open>
  \<^verbatim>\<open>createBizHandler\<close> (lines 57 to 68): \<open>Inl\<close> when the controller throws, or when
  \<^verbatim>\<open>res.status(c.successStatusCode).json(result)\<close> does.
\<close>

definition createBizHandler ::
    "env \<Rightarrow> controller \<Rightarrow> request \<Rightarrow> response \<Rightarrow> thrown + response" where
  "createBizHandler E c req res =
     (case execute c \<lparr>data = body req, inv_auth = req_auth req, pathParams = params req,
                       inv_rawBody = rawBody req, inv_headers = headers req\<rparr> of
        Inl e \<Rightarrow> Inl e
      | Inr result \<Rightarrow>
          send E req res (res\<lparr>status := successStatusCode c, jsonBody := Some result\<rparr>))"

section \<open>The router\<close>

text \<open>
  What \<^verbatim>\<open>createControllerRouter\<close> registers: a middleware for every request
  (\<^verbatim>\<open>router.use\<close>) or a handler for one method and path (\<^verbatim>\<open>router[method](urlPath, h)\<close>),
  kept in the order of registration.
\<close>

datatype handler =
    Cors
  | JsonBody
  | RequestLog
  | AuthHandler string "string option"
  | BizHandler controller
  | CatchError
  | ResponseLog

datatype layer = Use handler | Route string string handler

definition allowedMethods :: "string list" where
  "allowedMethods = [''get'', ''post'', ''patch'']"

text \<open>
  Lines 95 and 96: the method a file stands for. \<^verbatim>\<open>parts.pop()\<close> of an empty array is
  \<^verbatim>\<open>undefined\<close>, and so is the method then.
\<close>

definition methodOf :: "string \<Rightarrow> string option" where
  "methodOf controllerFile =
     (case rev (js_split CHR ''/'' controllerFile) of
        [] \<Rightarrow> None
      | seg # _ \<Rightarrow> Some (toLowerCase (replaceFirst ''.js'' [] seg)))"

text \<open>Line 100: the path, from the segments that \<^verbatim>\<open>pop()\<close> has left.\<close>

definition urlPathOf :: "env \<Rightarrow> string \<Rightarrow> string" where
  "urlPathOf E controllerFile =
     ''/'' @ join ''/''
       (map (openApiPathToExpressPath E) (butlast (js_split CHR ''/'' controllerFile)))"

text \<open>The body of the loop (lines 95 to 110) for one file.\<close>

definition registerFile ::
    "env \<Rightarrow> string \<Rightarrow> string option \<Rightarrow> string option \<Rightarrow> string \<Rightarrow> layer list
      \<Rightarrow> thrown + layer list" where
  "registerFile E controllerDir jwts defaultScope controllerFile router =
     (let invalid = JsError (''The method is invalid for the file '' @ controllerFile @ ''.'') in
      case methodOf controllerFile of
        None \<Rightarrow> Inl invalid
      | Some method \<Rightarrow>
          if method \<notin> set allowedMethods then Inl invalid
          else
            (let urlPath = urlPathOf E controllerFile in
             case importDefault E (controllerDir @ ''/'' @ controllerFile) of
               Inl m \<Rightarrow> Inl (JsError m)
             | Inr c \<Rightarrow>
                 if \<not> isPublic c then
                   (let required = JsError
                          (''A JWTS configuration is required since the controller ''
                           @ urlPath @ ''/'' @ method @ '' is private.'')
                    in case jwts of
                         None \<Rightarrow> Inl required
                       | Some j \<Rightarrow>
                           if j = [] then Inl required
                           else
                             Inr (router @
                               [Route method urlPath
                                  (AuthHandler j (js_or (scope c) defaultScope)),
                                Route method urlPath (BizHandler c)]))
                 else Inr (router @ [Route method urlPath (BizHandler c)])))"

text \<open>The loop of line 94 over the files in the order the listing yields them.\<close>

fun registerFiles ::
    "env \<Rightarrow> string \<Rightarrow> string option \<Rightarrow> string option \<Rightarrow> string list \<Rightarrow> layer list
      \<Rightarrow> thrown + layer list" where
  "registerFiles E controllerDir jwts defaultScope [] router = Inr router"
| "registerFiles E controllerDir jwts defaultScope (f # fs) router =
     (case registerFile E controllerDir jwts defaultScope f router of
        Inl e \<Rightarrow> Inl e
      | Inr router' \<Rightarrow> registerFiles E controllerDir jwts defaultScope fs router')"

text \<open>
  \<^verbatim>\<open>createControllerRouter\<close> (lines 70 to 122): \<open>Inl\<close> when the assembly throws, and then no
  router is returned.
\<close>

definition createControllerRouter ::
    "env \<Rightarrow> string \<Rightarrow> string option \<Rightarrow> string option \<Rightarrow> thrown + layer list" where
  "createControllerRouter E controllerDir jwts defaultScope =
     (case registerFiles E controllerDir jwts defaultScope (glob_js E controllerDir)
             [Use Cors, Use JsonBody, Use RequestLog] of
        Inl e \<Rightarrow> Inl e
      | Inr router \<Rightarrow> Inr (router @ [Use CatchError, Use ResponseLog]))"

text \<open>
  How the framework runs the handlers that match a request, in the order of registration.
  The handlers of this file are \<^verbatim>\<open>async\<close> functions that throw, and \<^verbatim>\<open>catchError\<close> is registered
  as the error-handling middleware (the only one with four parameters); the model follows
  the reading the code relies on, the one of Express 5: an error thrown by a handler, or the
  rejection of the promise it returns, is handed to the next error-handling middleware and the
  handlers in between are skipped; \<^verbatim>\<open>catchError\<close> is skipped while no error is pending; after
  it has answered it calls \<^verbatim>\<open>next()\<close> without an error, and when its own
  \<^verbatim>\<open>res.status(...).json(...)\<close> throws, that error is pending instead. The body parser is
  \<open>expressJson\<close>. \<^verbatim>\<open>cors()\<close> answers only \<^verbatim>\<open>OPTIONS\<close> requests itself, which no route of
  this router matches, and the two logging middleware only log. The result is the error
  still pending, if any, and the response.
\<close>

fun runChain ::
    "env \<Rightarrow> handler list \<Rightarrow> thrown option \<Rightarrow> request \<Rightarrow> response
      \<Rightarrow> thrown option \<times> response" where
  "runChain E [] err req res = (err, res)"
| "runChain E (h # hs) (Some e) req res =
     (case h of
        CatchError \<Rightarrow>
          (case send E req res (catchError e res) of
             Inl e' \<Rightarrow> runChain E hs (Some e') req res
           | Inr res' \<Rightarrow> runChain E hs None req res')
      | _ \<Rightarrow> runChain E hs (Some e) req res)"
| "runChain E (h # hs) None req res =
     (case h of
        JsonBody \<Rightarrow>
          (case expressJson E req of
             Inl e \<Rightarrow> runChain E hs (Some e) req res
           | Inr req' \<Rightarrow> runChain E hs None req' res)
      | AuthHandler j s \<Rightarrow>
          (case createAuthHandler E j s req of
             Inl e \<Rightarrow> runChain E hs (Some e) req res
           | Inr req' \<Rightarrow> runChain E hs None req' res)
      | BizHandler c \<Rightarrow>
          (case createBizHandler E c req res of
             Inl e \<Rightarrow> runChain E hs (Some e) req res
           | Inr res' \<Rightarrow> runChain E hs None req res')
      | _ \<Rightarrow> runChain E hs None req res)"

text \<open>
  The handlers of a router that a request for the route registered as \<open>(method, urlPath)\<close>
  passes through: every middleware, and the handlers registered for that method and path.
  How a concrete request path is matched against a registered path is the framework's
  business and is not modelled.
\<close>

fun handlersFor :: "layer list \<Rightarrow> string \<Rightarrow> string \<Rightarrow> handler list" where
  "handlersFor [] method urlPath = []"
| "handlersFor (Use h # ls) method urlPath = h # handlersFor ls method urlPath"
| "handlersFor (Route m p h # ls) method urlPath =
     (if m = method \<and> p = urlPath then h # handlersFor ls method urlPath
      else handlersFor ls method urlPath)"


section \<open>The specification's wording of the method, and example inputs\<close>

text \<open>
  The method of a controller file in the words of the specification (section 4.3, step 2):
  the final segment of the path, minus its module-file suffix, lowercased. The code computes
  \<open>methodOf\<close> instead; the two are compared below.
\<close>

definition spec_method :: "string \<Rightarrow> string" where
  "spec_method controllerFile =
     (let seg = last (js_split CHR ''/'' controllerFile)
      in toLowerCase (if suffix ''.js'' seg then take (length seg - 3) seg else seg))"

text \<open>
  Modelled from the spec: \<^verbatim>\<open>openApiPathToExpressPath\<close> of \<^verbatim>\<open>./util.js\<close> is not part of the
  sources. Section 4.3, step 3: a segment in brace syntax, \<^verbatim>\<open>{id}\<close>, becomes \<^verbatim>\<open>:id\<close>; any other
  segment is left as it is. Only the example environment uses it.
\<close>

definition braceToColon :: "string \<Rightarrow> string" where
  "braceToColon p =
     (case p of
        [] \<Rightarrow> []
      | c # cs \<Rightarrow>
          if c = CHR ''{'' \<and> cs \<noteq> [] \<and> last cs = CHR ''}'' then CHR '':'' # butlast cs
          else p)"

text \<open>
  An identity provider at \<^verbatim>\<open>https://idp.example/jwks\<close> that has signed three tokens; every
  other token fails verification.
\<close>

definition adminPayload :: jwt_payload where
  "adminPayload = \<lparr>payload_sub = ''alice'', payload_name = ''Alice'', payload_aud = ''api'',
                    payload_scope = Some ''read:users *:admin''\<rparr>"

definition readerPayload :: jwt_payload where
  "readerPayload = \<lparr>payload_sub = ''bob'', payload_name = ''Bob'', payload_aud = ''api'',
                     payload_scope = Some ''read:users write:users''\<rparr>"

definition writerPayload :: jwt_payload where
  "writerPayload = \<lparr>payload_sub = ''carol'', payload_name = ''Carol'', payload_aud = ''api'',
                     payload_scope = Some ''write:users''\<rparr>"

definition exampleVerify :: "string option \<Rightarrow> jwks \<Rightarrow> string + jwt_payload" where
  "exampleVerify tok jwts =
     (case tok of
        None \<Rightarrow> Inl ''JWTInvalid''
      | Some t \<Rightarrow>
          if t = ''t-admin'' then Inr adminPayload
          else if t = ''t-reader'' then Inr readerPayload
          else if t = ''t-writer'' then Inr writerPayload
          else Inl ''JWSSignatureVerificationFailed'')"

definition getUser :: controller where
  "getUser = \<lparr>isPublic = False, scope = Some ''read:users'', successStatusCode = 200,
               execute = (\<lambda>i. Inr (JObj [(''name'', JStr ''a'')]))\<rparr>"

definition getHealth :: controller where
  "getHealth = \<lparr>isPublic = True, scope = None, successStatusCode = 200,
                 execute = (\<lambda>i. Inr (JObj [(''ok'', JBool True)]))\<rparr>"

definition createUser :: controller where
  "createUser = \<lparr>isPublic = True, scope = None, successStatusCode = 201,
                  execute = (\<lambda>i. Inr (JObj [(''created'', data i)]))\<rparr>"

text \<open>
  Three controllers for the dispatch handler alone: one that declares the status 204, one
  that declares a number that is no status, and one whose \<^verbatim>\<open>execute()\<close> returns \<^verbatim>\<open>undefined\<close>.
\<close>

definition patchUser :: controller where
  "patchUser = \<lparr>isPublic = False, scope = Some ''write:users'', successStatusCode = 200,
                 execute = (\<lambda>i. Inr (JObj [(''updated'', data i)]))\<rparr>"

definition touchUser :: controller where
  "touchUser = \<lparr>isPublic = True, scope = None, successStatusCode = 204,
                 execute = (\<lambda>i. Inr (JObj [(''touched'', JBool True)]))\<rparr>"

definition oddStatus :: controller where
  "oddStatus = \<lparr>isPublic = True, scope = None, successStatusCode = 99,
                 execute = (\<lambda>i. Inr (JObj [(''ok'', JBool True)]))\<rparr>"

definition getNothing :: controller where
  "getNothing = \<lparr>isPublic = True, scope = None, successStatusCode = 200,
                  execute = (\<lambda>i. Inr JUndefined)\<rparr>"

definition getStatus :: controller where
  "getStatus = \<lparr>isPublic = True, scope = None, successStatusCode = 200,
                 execute = (\<lambda>i. Inr (JObj [(''status'', JStr ''up'')]))\<rparr>"

text \<open>An inline JSON Web Key Set document, and the value \<^verbatim>\<open>JSON.parse\<close> returns for it.\<close>

definition inlineJwks :: string where
  \<open>inlineJwks = ''{"keys":[{"kty":"oct","k":"c2VjcmV0"}]}''\<close>

definition inlineDoc :: json where
  "inlineDoc = JObj [(''keys'', JArr [JObj [(''kty'', JStr ''oct''), (''k'', JStr ''c2VjcmV0'')]])]"

text \<open>A JSON entity that the body parser accepts, and the value it parses to.\<close>

definition eveText :: string where
  \<open>eveText = ''{"name":"eve"}''\<close>

definition eveDoc :: json where
  "eveDoc = JObj [(''name'', JStr ''eve'')]"

text \<open>
  A controller directory, given by the listing of its files; every module loads, and the
  private controller \<open>getUser\<close> is the default export of \<^verbatim>\<open>users/{id}/get.js\<close>. The
  directory is the one \<^verbatim>\<open>registerControllers\<close> passes, which ends in a slash.
\<close>

definition exampleEnv :: "string list \<Rightarrow> env" where
  "exampleEnv files =
     \<lparr>validURL = (\<lambda>s. prefix ''https://'' s \<or> prefix ''http://'' s),
      jsonParse = (\<lambda>s. if s = inlineJwks then Inr inlineDoc else Inl ''SyntaxError''),
      jwtVerify = exampleVerify,
      glob_js = (\<lambda>dir. files),
      importDefault =
        (\<lambda>path. if path = ''/app/dist/controllers//users/{id}/get.js'' then Inr getUser
                 else if path = ''/app/dist/controllers//users/post.js'' then Inr createUser
                 else if path = ''/app/dist/controllers//health/GET.js'' then Inr getStatus
                 else Inr getHealth),
      openApiPathToExpressPath = braceToColon,
      parseJsonBody = (\<lambda>buf. if buf = eveText then Inr eveDoc
                             else Inl ''SyntaxError: Unexpected end of JSON input''),
      validates = (\<lambda>req written. headers req ''if-none-match'' = Some ''*'')\<rparr>"

text \<open>
  Requests as they arrive: a \<^verbatim>\<open>GET\<close> request with an \<^verbatim>\<open>Authorization\<close> header, one that also
  carries \<^verbatim>\<open>x-personate-sub\<close>, a request of a given method with given headers and a JSON
  entity, and a response not yet sent.
\<close>

definition bearer :: "string \<Rightarrow> request" where
  "bearer authorization =
     \<lparr>req_method = ''GET'', headers = [''authorization'' \<mapsto> authorization], entity = None,
      body = JUndefined, params = [], rawBody = None, req_auth = None\<rparr>"

definition personating :: "string \<Rightarrow> string \<Rightarrow> request" where
  "personating authorization x =
     \<lparr>req_method = ''GET'',
      headers = [''authorization'' \<mapsto> authorization, ''x-personate-sub'' \<mapsto> x],
      entity = None, body = JUndefined, params = [], rawBody = None, req_auth = None\<rparr>"

definition carrying :: "string \<Rightarrow> (string \<rightharpoonup> string) \<Rightarrow> string option \<Rightarrow> request" where
  "carrying m hs bytes =
     \<lparr>req_method = m, headers = hs, entity = bytes, body = JUndefined, params = [],
      rawBody = None, req_auth = None\<rparr>"

definition ok200 :: response where
  "ok200 = \<lparr>status = 200, jsonBody = None, headersSent = False\<rparr>"

section \<open>Auxiliary facts\<close>

subsection \<open>The handlers\<close>

lemma js_split_nonempty: "js_split d s \<noteq> []"
  by (induction s) (auto split: list.splits)

lemma catchError_status: "status (catchError (RestErr e) res) = statusCode e"
  by (simp add: catchError_def)

text \<open>The body parser changes nothing but \<open>body\<close> and \<open>rawBody\<close>.\<close>

lemma expressJson_keeps:
  assumes "expressJson E arrived = Inr req"
  shows "headers req = headers arrived" and "req_method req = req_method arrived"
    and "req_auth req = req_auth arrived" and "params req = params arrived"
  using assms by (auto simp: expressJson_def split: option.splits sum.splits)

text \<open>
  An error status is sent as it is: the response is not fresh, and the status is neither out
  of range nor replaced.
\<close>

lemma send_error_status:
  assumes "\<not> headersSent res" and "400 \<le> status written" and "status written \<le> 999"
  shows "\<exists>answer. send E req res written = Inr answer \<and> status answer = status written
           \<and> headersSent answer"
  using assms by (simp add: send_def fresh_def)

text \<open>The chain of a private route when the auth handler throws.\<close>

lemma private_chain_auth_error:
  assumes "expressJson E arrived = Inr req" and "createAuthHandler E j s req = Inl e"
    and "send E req res (catchError e res) = Inr answer"
  shows "runChain E [Cors, JsonBody, RequestLog, AuthHandler j s, BizHandler c, CatchError,
            ResponseLog] None arrived res = (None, answer)"
  using assms by simp

text \<open>The chain of any route when the body parser fails.\<close>

lemma chain_body_error:
  assumes "expressJson E arrived = Inl e" and "CatchError \<notin> set hs"
    and "send E arrived res (catchError e res) = Inr answer"
  shows "runChain E (Cors # JsonBody # hs @ [CatchError, ResponseLog]) None arrived res
           = (None, answer)"
proof -
  have skip: "runChain E (hs @ [CatchError, ResponseLog]) (Some e) arrived res = (None, answer)"
    using assms(2)
  proof (induction hs)
    case Nil
    with assms(3) show ?case by simp
  next
    case (Cons h hs)
    then show ?case by (cases h) simp_all
  qed
  with assms(1) show ?thesis by simp
qed

lemma verifyBlock_fails:
  assumes "\<forall>jwts. keySet E options_jwts = Inr jwts \<longrightarrow> isl (jwtVerify E tok jwts)"
  shows "\<exists>m. verifyBlock E options_jwts options_scope tok req = Inl (JsError m)"
proof (cases "keySet E options_jwts")
  case (Inl e)
  then have "\<exists>m. e = JsError m"
    by (auto simp: keySet_def JSON_parse_def split: if_splits)
  with Inl show ?thesis by (auto simp: verifyBlock_def)
next
  case (Inr jwts)
  with assms have "isl (jwtVerify E tok jwts)" by simp
  then obtain m where "jwtVerify E tok jwts = Inl m" by (cases "jwtVerify E tok jwts") auto
  with Inr show ?thesis by (simp add: verifyBlock_def)
qed

text \<open>The first branch of lines 23 to 27: a value that starts with \<^verbatim>\<open>http\<close> and is a URL.\<close>

lemma remote_key_set:
  "prefix ''http'' options_jwts \<Longrightarrow> validURL E options_jwts \<Longrightarrow>
   keySet E options_jwts = Inr (RemoteJWKSet options_jwts)"
  by (simp add: keySet_def)

text \<open>The handler once the two header checks have passed.\<close>

lemma auth_after_header_checks:
  assumes "headers req ''authorization'' = Some a" and "a \<noteq> []"
    and "tokenType a = Some ''Bearer''"
  shows "createAuthHandler E j s req =
     (case verifyBlock E j s (token a) req of
        Inl error \<Rightarrow>
          (case error of
             RestErr e \<Rightarrow> Inl (RestErr e)
           | JsError m \<Rightarrow> Inl (RestErr (unauthorized JUndefined)))
      | Inr req' \<Rightarrow> Inr req')"
  using assms by (simp add: createAuthHandler_def)

text \<open>The try block once the token has been verified.\<close>

lemma verifyBlock_verified:
  assumes "keySet E j = Inr jwts" and "jwtVerify E tok jwts = Inr payload"
  shows "verifyBlock E j s tok req =
     (let scopes = map_option (js_split CHR '' '') (payload_scope payload) in
      if (case s of None \<Rightarrow> False | Some sc \<Rightarrow> sc \<noteq> [] \<and> \<not> js_includes scopes sc)
      then Inl (RestErr forbidden)
      else Inr (req\<lparr>req_auth := Some
             \<lparr>sub = (if js_includes scopes ''*:admin''
                      then personate (headers req ''x-personate-sub'') (payload_sub payload)
                      else payload_sub payload),
              name = payload_name payload, aud = payload_aud payload, scopes = scopes\<rparr>\<rparr>))"
  using assms by (simp add: verifyBlock_def Let_def)

lemma auth_verified:
  assumes "headers req ''authorization'' = Some a" and "a \<noteq> []"
    and "tokenType a = Some ''Bearer''"
    and "keySet E j = Inr jwts" and "jwtVerify E (token a) jwts = Inr payload"
  shows "createAuthHandler E j s req =
     (let scopes = map_option (js_split CHR '' '') (payload_scope payload) in
      if (case s of None \<Rightarrow> False | Some sc \<Rightarrow> sc \<noteq> [] \<and> \<not> js_includes scopes sc)
      then Inl (RestErr forbidden)
      else Inr (req\<lparr>req_auth := Some
             \<lparr>sub = (if js_includes scopes ''*:admin''
                      then personate (headers req ''x-personate-sub'') (payload_sub payload)
                      else payload_sub payload),
              name = payload_name payload, aud = payload_aud payload, scopes = scopes\<rparr>\<rparr>))"
  by (simp add: auth_after_header_checks [OF assms(1-3)] verifyBlock_verified [OF assms(4,5)]
        Let_def)

subsection \<open>Strings and the method of a file\<close>

lemma lowerChar_dot: "lowerChar c = CHR ''.'' \<longleftrightarrow> c = CHR ''.''"
  by (simp add: lowerChar_def)

lemma toLowerCase_dot: "CHR ''.'' \<in> set (toLowerCase s) \<longleftrightarrow> CHR ''.'' \<in> set s"
proof (induction s)
  case Nil
  show ?case by (simp add: toLowerCase_def)
next
  case (Cons c cs)
  have "CHR ''.'' = lowerChar c \<longleftrightarrow> CHR ''.'' = c"
    using lowerChar_dot [of c] by auto
  with Cons show ?case by (simp add: toLowerCase_def)
qed

lemma allowed_no_dot: "m \<in> set allowedMethods \<Longrightarrow> CHR ''.'' \<notin> set m"
  by (auto simp: allowedMethods_def)

lemma replaceFirst_dotfree:
  "CHR ''.'' \<notin> set x \<Longrightarrow> replaceFirst ''.js'' [] (x @ ''.js'' @ y) = x @ y"
  by (induction x) auto

lemma suffix_js_after_js:
  assumes "suffix ''.js'' (''.js'' @ y)" and "CHR ''.'' \<notin> set y"
  shows "y = []"
proof (rule ccontr)
  assume "y \<noteq> []"
  from assms(1) obtain zs where z: "''.js'' @ y = zs @ ''.js''" by (auto simp: suffix_def)
  show False
  proof (cases zs)
    case Nil with z \<open>y \<noteq> []\<close> show False by simp
  next
    case (Cons a zs1)
    with z have y: "''js'' @ y = zs1 @ ''.js''" by simp
    show False
    proof (cases zs1)
      case Nil with y show False by simp
    next
      case (Cons b zs2)
      with y have y2: "''s'' @ y = zs2 @ ''.js''" by simp
      show False
      proof (cases zs2)
        case Nil with y2 show False by simp
      next
        case (Cons c zs3)
        with y2 have "y = zs3 @ ''.js''" by simp
        with assms(2) show False by simp
      qed
    qed
  qed
qed

lemma replaceFirst_strips_suffix:
  "CHR ''.'' \<notin> set (replaceFirst ''.js'' [] s) \<Longrightarrow> suffix ''.js'' s
     \<Longrightarrow> s = replaceFirst ''.js'' [] s @ ''.js''"
proof (induction s)
  case Nil
  then show ?case by simp
next
  case (Cons c cs)
  show ?case
  proof (cases "prefix ''.js'' (c # cs)")
    case True
    then obtain y where y: "c # cs = ''.js'' @ y" by (auto simp: prefix_def)
    with Cons.prems have "CHR ''.'' \<notin> set y" by simp
    with Cons.prems(2) y have "y = []" using suffix_js_after_js by metis
    with y show ?thesis by simp
  next
    case False
    with Cons.prems have c: "c \<noteq> CHR ''.''" and r: "CHR ''.'' \<notin> set (replaceFirst ''.js'' [] cs)"
      by auto
    from Cons.prems(2) c have "suffix ''.js'' cs"
      by (auto simp: suffix_Cons)
    with Cons.IH r have eq: "cs = replaceFirst ''.js'' [] cs @ ''.js''" by simp
    from False have "replaceFirst ''.js'' [] (c # cs) = c # replaceFirst ''.js'' [] cs"
      by (simp only: replaceFirst.simps if_False)
    with eq show ?thesis by (metis append_Cons)
  qed
qed


lemma js_split_no_separator: "d \<notin> set s \<Longrightarrow> js_split d s = [s]"
  by (induction s) auto

lemma js_split_append:
  "d \<notin> set ys \<Longrightarrow>
   js_split d (xs @ ys) = butlast (js_split d xs) @ [last (js_split d xs) @ ys]"
proof (induction xs)
  case Nil
  then show ?case by (simp add: js_split_no_separator)
next
  case (Cons x xs)
  then have ih: "js_split d (xs @ ys) = butlast (js_split d xs) @ [last (js_split d xs) @ ys]"
    by simp
  obtain w ws where w: "js_split d xs = w # ws"
    using js_split_nonempty [of d xs] by (cases "js_split d xs") auto
  show ?case
  proof (cases "x = d")
    case True
    with ih w show ?thesis by simp
  next
    case False
    with ih w show ?thesis by (cases ws) auto
  qed
qed

lemma last_js_split_append:
  "d \<notin> set ys \<Longrightarrow> last (js_split d (xs @ ys)) = last (js_split d xs) @ ys"
  by (simp add: js_split_append)

lemma suffix_js_last_segment:
  assumes "suffix ''.js'' controllerFile"
  shows "suffix ''.js'' (last (js_split CHR ''/'' controllerFile))"
proof -
  from assms obtain xs where "controllerFile = xs @ ''.js''" by (auto simp: suffix_def)
  then have "last (js_split CHR ''/'' controllerFile) = last (js_split CHR ''/'' xs) @ ''.js''"
    by (simp add: last_js_split_append)
  then show ?thesis by (simp add: suffix_def)
qed

lemma methodOf_last:
  "methodOf controllerFile
     = Some (toLowerCase (replaceFirst ''.js'' [] (last (js_split CHR ''/'' controllerFile))))"
proof -
  obtain seg rparts where r: "rev (js_split CHR ''/'' controllerFile) = seg # rparts"
    using js_split_nonempty [of "CHR ''/''" controllerFile]
    by (cases "rev (js_split CHR ''/'' controllerFile)") auto
  then have "js_split CHR ''/'' controllerFile = rev rparts @ [seg]"
    by (metis rev_rev_ident rev.simps(2))
  then have "last (js_split CHR ''/'' controllerFile) = seg" by simp
  with r show ?thesis by (simp add: methodOf_def)
qed

text \<open>
  On a file that the listing can yield (its name ends in \<^verbatim>\<open>.js\<close>), the method the code
  computes is an allowed one exactly when the specification's is, and then they agree.
\<close>

lemma method_allowed_then_spec:
  assumes "suffix ''.js'' controllerFile"
    and "methodOf controllerFile = Some method" and "method \<in> set allowedMethods"
  shows "spec_method controllerFile = method"
proof -
  let ?seg = "last (js_split CHR ''/'' controllerFile)"
  from assms(2) have m: "method = toLowerCase (replaceFirst ''.js'' [] ?seg)"
    by (simp add: methodOf_last)
  with assms(3) have "CHR ''.'' \<notin> set (replaceFirst ''.js'' [] ?seg)"
    using allowed_no_dot toLowerCase_dot by blast
  moreover have s: "suffix ''.js'' ?seg" using assms(1) by (rule suffix_js_last_segment)
  ultimately have "?seg = replaceFirst ''.js'' [] ?seg @ ''.js''"
    by (rule replaceFirst_strips_suffix)
  then have "take (length ?seg - 3) ?seg = replaceFirst ''.js'' [] ?seg"
    by (metis append_eq_conv_conj length_append add_diff_cancel_right' length_Cons list.size(3)
          numeral_3_eq_3)
  with s m show ?thesis by (simp add: spec_method_def Let_def)
qed

lemma spec_allowed_then_method:
  assumes "suffix ''.js'' controllerFile" and "spec_method controllerFile \<in> set allowedMethods"
  shows "methodOf controllerFile = Some (spec_method controllerFile)"
proof -
  let ?seg = "last (js_split CHR ''/'' controllerFile)"
  let ?x = "take (length ?seg - 3) ?seg"
  have s: "suffix ''.js'' ?seg" using assms(1) by (rule suffix_js_last_segment)
  then have sp: "spec_method controllerFile = toLowerCase ?x"
    by (simp add: spec_method_def Let_def)
  with assms(2) have nd: "CHR ''.'' \<notin> set ?x"
    using allowed_no_dot toLowerCase_dot by metis
  from s have "?seg = ?x @ ''.js''"
    using suffix_take [of "''.js''" ?seg] by (simp add: numeral_3_eq_3)
  then have "replaceFirst ''.js'' [] ?seg = replaceFirst ''.js'' [] (?x @ ''.js'' @ [])"
    by simp
  also have "\<dots> = ?x" using replaceFirst_dotfree [OF nd, of "[]"] by simp
  finally show ?thesis using sp by (simp add: methodOf_last)
qed

subsection \<open>The loop over the controller files\<close>

lemma registerFiles_fails:
  assumes "\<And>router. isl (registerFile E dir jwts ds f router)" and "f \<in> set fs"
  shows "isl (registerFiles E dir jwts ds fs router)"
  using assms(2)
proof (induction fs arbitrary: router)
  case Nil
  then show ?case by simp
next
  case (Cons g gs)
  show ?case
  proof (cases "registerFile E dir jwts ds g router")
    case (Inl e)
    then show ?thesis by simp
  next
    case (Inr router')
    show ?thesis
    proof (cases "g = f")
      case True
      with assms(1) [of router] Inr show ?thesis by simp
    next
      case False
      with Cons.prems have "f \<in> set gs" by simp
      with Cons.IH Inr show ?thesis by simp
    qed
  qed
qed

lemma registerFiles_append:
  "registerFiles E dir jwts ds pre router = Inr router' \<Longrightarrow>
   registerFiles E dir jwts ds (pre @ post) router = registerFiles E dir jwts ds post router'"
  by (induction pre arbitrary: router) (auto split: sum.splits)

lemma createControllerRouter_fails:
  assumes "\<And>router. isl (registerFile E dir jwts ds f router)" and "f \<in> set (glob_js E dir)"
  shows "isl (createControllerRouter E dir jwts ds)"
proof -
  from assms
  have "isl (registerFiles E dir jwts ds (glob_js E dir) [Use Cors, Use JsonBody, Use RequestLog])"
    by (rule registerFiles_fails)
  then show ?thesis by (auto simp: createControllerRouter_def split: sum.splits)
qed

lemma createControllerRouter_first_failure:
  assumes "glob_js E dir = pre @ f # post"
    and "registerFiles E dir jwts ds pre [Use Cors, Use JsonBody, Use RequestLog] = Inr router"
    and "registerFile E dir jwts ds f router = Inl e"
  shows "createControllerRouter E dir jwts ds = Inl e"
  using assms by (simp add: createControllerRouter_def registerFiles_append)

lemma registerFile_invalid_method:
  assumes "methodOf f = Some method" and "method \<notin> set allowedMethods"
  shows "registerFile E dir jwts ds f router
           = Inl (JsError (''The method is invalid for the file '' @ f @ ''.''))"
  using assms by (simp add: registerFile_def)

lemma registerFile_private_without_jwts:
  assumes "methodOf f = Some method" and "method \<in> set allowedMethods"
    and "importDefault E (dir @ ''/'' @ f) = Inr c" and "\<not> isPublic c"
  shows "registerFile E dir None ds f router
           = Inl (JsError (''A JWTS configuration is required since the controller ''
                           @ urlPathOf E f @ ''/'' @ method @ '' is private.''))"
  using assms by (simp add: registerFile_def)





subsection \<open>The chain of a route\<close>

lemma handlersFor_append:
  "handlersFor (xs @ ys) m p = handlersFor xs m p @ handlersFor ys m p"
  by (induction xs m p rule: handlersFor.induct) simp_all

lemma registerFile_handlers:
  assumes "registerFile E dir jwts ds f router = Inr router'"
  shows "\<exists>m c. methodOf f = Some m \<and> importDefault E (dir @ ''/'' @ f) = Inr c
     \<and> router' = router @
          (if isPublic c then [Route m (urlPathOf E f) (BizHandler c)]
           else (case jwts of
                   None \<Rightarrow> []
                 | Some j \<Rightarrow> [Route m (urlPathOf E f) (AuthHandler j (js_or (scope c) ds)),
                              Route m (urlPathOf E f) (BizHandler c)]))
     \<and> (\<not> isPublic c \<longrightarrow> (\<exists>j. jwts = Some j \<and> j \<noteq> []))"
  using assms
  by (auto simp: registerFile_def Let_def split: option.splits if_splits sum.splits)

lemma registerFile_other_route:
  assumes "registerFile E dir jwts ds f router = Inr router'"
    and "\<not> (methodOf f = Some m \<and> urlPathOf E f = p)"
  shows "handlersFor router' m p = handlersFor router m p"
proof -
  from registerFile_handlers [OF assms(1)] obtain m' c where
    "methodOf f = Some m'"
    "router' = router @
          (if isPublic c then [Route m' (urlPathOf E f) (BizHandler c)]
           else (case jwts of
                   None \<Rightarrow> []
                 | Some j \<Rightarrow> [Route m' (urlPathOf E f) (AuthHandler j (js_or (scope c) ds)),
                              Route m' (urlPathOf E f) (BizHandler c)]))"
    by blast
  with assms(2) show ?thesis
    by (auto simp: handlersFor_append split: option.splits)
qed

lemma registerFiles_other_routes:
  "registerFiles E dir jwts ds fs router = Inr router' \<Longrightarrow>
   \<forall>g\<in>set fs. \<not> (methodOf g = Some m \<and> urlPathOf E g = p) \<Longrightarrow>
   handlersFor router' m p = handlersFor router m p"
proof (induction fs arbitrary: router)
  case Nil
  then show ?case by simp
next
  case (Cons f fs)
  from Cons.prems(1) obtain r1 where
    r1: "registerFile E dir jwts ds f router = Inr r1"
    and rest: "registerFiles E dir jwts ds fs r1 = Inr router'"
    by (auto split: sum.splits)
  from Cons.prems(2) have "\<not> (methodOf f = Some m \<and> urlPathOf E f = p)" by simp
  with r1 have "handlersFor r1 m p = handlersFor router m p"
    by (rule registerFile_other_route)
  moreover from Cons.prems(2) have "\<forall>g\<in>set fs. \<not> (methodOf g = Some m \<and> urlPathOf E g = p)"
    by simp
  with Cons.IH [OF rest] have "handlersFor router' m p = handlersFor r1 m p" .
  ultimately show ?case by simp
qed

lemma registerFiles_split:
  "registerFiles E dir jwts ds (pre @ post) router = Inr router' \<Longrightarrow>
   \<exists>r1. registerFiles E dir jwts ds pre router = Inr r1
       \<and> registerFiles E dir jwts ds post r1 = Inr router'"
  by (induction pre arbitrary: router) (auto split: sum.splits)

text \<open>
  The chain of a route of an assembled router. When exactly one file of the listing resolves
  to a method and path, a request for that route passes through the three middleware of
  lines 75 to 93, the auth handler if the controller is private, the dispatch handler, and
  the two middleware of lines 112 to 120.
\<close>

lemma assembled_route_chain:
  assumes "createControllerRouter E dir jwts ds = Inr router"
    and "glob_js E dir = pre @ f # post"
    and "\<forall>g\<in>set pre \<union> set post. \<not> (methodOf g = Some m \<and> urlPathOf E g = p)"
    and "methodOf f = Some m" and "urlPathOf E f = p"
    and "importDefault E (dir @ ''/'' @ f) = Inr c"
  shows "(isPublic c \<longrightarrow> handlersFor router m p
            = [Cors, JsonBody, RequestLog, BizHandler c, CatchError, ResponseLog])
       \<and> (\<not> isPublic c \<longrightarrow> (\<exists>j. jwts = Some j \<and> j \<noteq> [] \<and> handlersFor router m p
            = [Cors, JsonBody, RequestLog, AuthHandler j (js_or (scope c) ds), BizHandler c,
               CatchError, ResponseLog]))"
proof -
  from assms(1) obtain registered where
    r: "registerFiles E dir jwts ds (glob_js E dir) [Use Cors, Use JsonBody, Use RequestLog]
          = Inr registered"
    and router: "router = registered @ [Use CatchError, Use ResponseLog]"
    by (auto simp: createControllerRouter_def split: sum.splits)
  from r assms(2) obtain r1 where
    r1: "registerFiles E dir jwts ds pre [Use Cors, Use JsonBody, Use RequestLog] = Inr r1"
    and r2: "registerFiles E dir jwts ds (f # post) r1 = Inr registered"
    using registerFiles_split by metis
  from r2 obtain r3 where
    r3: "registerFile E dir jwts ds f r1 = Inr r3"
    and r4: "registerFiles E dir jwts ds post r3 = Inr registered"
    by (auto split: sum.splits)
  from assms(3) have
    npre: "\<forall>g\<in>set pre. \<not> (methodOf g = Some m \<and> urlPathOf E g = p)"
    and npost: "\<forall>g\<in>set post. \<not> (methodOf g = Some m \<and> urlPathOf E g = p)"
    by auto
  have h1: "handlersFor r1 m p = [Cors, JsonBody, RequestLog]"
    using registerFiles_other_routes [OF r1 npre] by simp
  have h4: "handlersFor registered m p = handlersFor r3 m p"
    using r4 npost by (rule registerFiles_other_routes)
  from registerFile_handlers [OF r3] assms(4,6) have
    r3eq: "r3 = r1 @
          (if isPublic c then [Route m (urlPathOf E f) (BizHandler c)]
           else (case jwts of
                   None \<Rightarrow> []
                 | Some j \<Rightarrow> [Route m (urlPathOf E f) (AuthHandler j (js_or (scope c) ds)),
                              Route m (urlPathOf E f) (BizHandler c)]))"
    and priv: "\<not> isPublic c \<longrightarrow> (\<exists>j. jwts = Some j \<and> j \<noteq> [])"
    by auto
  show ?thesis
  proof (cases "isPublic c")
    case True
    with r3eq h1 h4 assms(5) show ?thesis
      by (simp add: router handlersFor_append)
  next
    case False
    with priv obtain j where j: "jwts = Some j" "j \<noteq> []" by blast
    with False r3eq h1 h4 assms(5) show ?thesis
      by (simp add: router handlersFor_append)
  qed
qed

subsection \<open>Examples\<close>

text \<open>The example inputs, evaluated.\<close>

lemma example_keySet:
  "keySet (exampleEnv files) ''https://idp.example/jwks''
     = Inr (RemoteJWKSet ''https://idp.example/jwks'')"
  by (simp add: keySet_def exampleEnv_def)

lemma example_bearer:
  "headers (bearer a) ''authorization'' = Some a"
  "headers (bearer a) ''x-personate-sub'' = None"
  "headers (personating a x) ''authorization'' = Some a"
  "headers (personating a x) ''x-personate-sub'' = Some x"
  by (simp_all add: bearer_def personating_def)

lemma example_tokens:
  "tokenType ''Bearer t-admin'' = Some ''Bearer''" "token ''Bearer t-admin'' = Some ''t-admin''"
  "tokenType ''Bearer t-reader'' = Some ''Bearer''" "token ''Bearer t-reader'' = Some ''t-reader''"
  "tokenType ''Bearer t-writer'' = Some ''Bearer''" "token ''Bearer t-writer'' = Some ''t-writer''"
  "tokenType ''Bearer t-forged'' = Some ''Bearer''" "token ''Bearer t-forged'' = Some ''t-forged''"
  by (simp_all add: tokenType_def token_def)

lemma example_verify:
  "jwtVerify (exampleEnv files) (Some ''t-admin'') jwts = Inr adminPayload"
  "jwtVerify (exampleEnv files) (Some ''t-reader'') jwts = Inr readerPayload"
  "jwtVerify (exampleEnv files) (Some ''t-writer'') jwts = Inr writerPayload"
  "jwtVerify (exampleEnv files) (Some ''t-forged'') jwts = Inl ''JWSSignatureVerificationFailed''"
  by (simp_all add: exampleEnv_def exampleVerify_def)

lemma example_scopes:
  "map_option (js_split CHR '' '') (payload_scope adminPayload) = Some [''read:users'', ''*:admin'']"
  "map_option (js_split CHR '' '') (payload_scope readerPayload)
     = Some [''read:users'', ''write:users'']"
  "map_option (js_split CHR '' '') (payload_scope writerPayload) = Some [''write:users'']"
  by (simp_all add: adminPayload_def readerPayload_def writerPayload_def)

lemma example_methods:
  "methodOf ''users/{id}/get.js'' = Some ''get''"
  "methodOf ''users/post.js'' = Some ''post''"
  "methodOf ''health/get.js'' = Some ''get''"
  "methodOf ''health/GET.js'' = Some ''get''"
  "methodOf ''users/put.js'' = Some ''put''"
  "spec_method ''users/put.js'' = ''put''"
  by (simp_all add: methodOf_def spec_method_def toLowerCase_def lowerChar_def suffix_to_prefix)

lemma example_paths:
  "urlPathOf (exampleEnv files) ''users/{id}/get.js'' = ''/users/:id''"
  "urlPathOf (exampleEnv files) ''users/post.js'' = ''/users''"
  "urlPathOf (exampleEnv files) ''health/get.js'' = ''/health''"
  "urlPathOf (exampleEnv files) ''health/GET.js'' = ''/health''"
  by (simp_all add: urlPathOf_def exampleEnv_def braceToColon_def)

lemma example_imports:
  "importDefault (exampleEnv files) (''/app/dist/controllers/'' @ ''/'' @ ''users/{id}/get.js'')
     = Inr getUser"
  "importDefault (exampleEnv files) (''/app/dist/controllers/'' @ ''/'' @ ''users/post.js'')
     = Inr createUser"
  "importDefault (exampleEnv files) (''/app/dist/controllers/'' @ ''/'' @ ''health/get.js'')
     = Inr getHealth"
  "importDefault (exampleEnv files) (''/app/dist/controllers/'' @ ''/'' @ ''health/GET.js'')
     = Inr getStatus"
  by (simp_all add: exampleEnv_def)

lemma example_imports_lit:
  "importDefault (exampleEnv files) ''/app/dist/controllers//users/{id}/get.js'' = Inr getUser"
  "importDefault (exampleEnv files) ''/app/dist/controllers//users/post.js'' = Inr createUser"
  "importDefault (exampleEnv files) ''/app/dist/controllers//health/get.js'' = Inr getHealth"
  "importDefault (exampleEnv files) ''/app/dist/controllers//health/GET.js'' = Inr getStatus"
  by (simp_all add: exampleEnv_def)

lemma example_public:
  "\<not> isPublic getUser" "isPublic createUser" "isPublic getHealth" "isPublic getStatus"
  "scope getUser = Some ''read:users''"
  by (simp_all add: getUser_def createUser_def getHealth_def getStatus_def)

lemma example_register:
  "registerFile (exampleEnv files) ''/app/dist/controllers/'' jwts ds ''users/post.js'' router
     = Inr (router @ [Route ''post'' ''/users'' (BizHandler createUser)])"
  "registerFile (exampleEnv files) ''/app/dist/controllers/'' jwts ds ''health/get.js'' router
     = Inr (router @ [Route ''get'' ''/health'' (BizHandler getHealth)])"
  "registerFile (exampleEnv files) ''/app/dist/controllers/'' jwts ds ''health/GET.js'' router
     = Inr (router @ [Route ''get'' ''/health'' (BizHandler getStatus)])"
  by (simp_all add: registerFile_def example_methods example_paths example_imports_lit
        example_public allowedMethods_def Let_def)


text \<open>
  Two dispatch handlers on one request, as on the router of a directory that holds
  \<^verbatim>\<open>health/get.js\<close> and \<^verbatim>\<open>health/GET.js\<close>: the first answers, \<^verbatim>\<open>res.json\<close> of the second throws
  on the response already sent, and so does that of \<^verbatim>\<open>catchError\<close>; the first answer stands.
\<close>

lemma example_second_handler_throws:
  "runChain (exampleEnv []) [Cors, JsonBody, RequestLog, BizHandler getHealth,
       BizHandler getStatus, CatchError, ResponseLog] None (carrying ''GET'' Map.empty None) ok200
     = (Some (JsError ''Error: Cannot set headers after they are sent to the client''),
        \<lparr>status = 200, jsonBody = Some (JObj [(''ok'', JBool True)]), headersSent = True\<rparr>)"
  by (simp add: createBizHandler_def send_def fresh_def bodyless_def carrying_def ok200_def
        getHealth_def getStatus_def expressJson_def catchError_def)

section \<open>Authentication failures\<close>

text \<open>
  C1, as amended. Let a request reach the auth handler with its \<^verbatim>\<open>Authorization\<close> header
  absent, or with a scheme (the text before the first space) that is not \<^verbatim>\<open>Bearer\<close>, or with
  a token that fails verification (the key set cannot be built, or \<^verbatim>\<open>jwtVerify\<close> rejects the
  token against it). Then the auth handler throws an Unauthorized error, whose status is
  401; and for every request to the private route that the body parser passes on as this
  one (it carries no JSON entity, or one that parses), the response, not sent before, is
  sent with status 401.
\<close>

theorem auth_unauthorized:
  assumes "headers req ''authorization'' = None
     \<or> (\<exists>a. headers req ''authorization'' = Some a \<and> tokenType a \<noteq> Some ''Bearer'')
     \<or> (\<exists>a. headers req ''authorization'' = Some a
          \<and> (\<forall>jwts. keySet E options_jwts = Inr jwts \<longrightarrow> isl (jwtVerify E (token a) jwts)))"
  shows "\<exists>message. createAuthHandler E options_jwts options_scope req
            = Inl (RestErr (unauthorized message))
         \<and> status (catchError (RestErr (unauthorized message)) res) = 401
         \<and> (\<forall>arrived. expressJson E arrived = Inr req \<and> \<not> headersSent res \<longrightarrow>
               (\<exists>answer.
                  runChain E [Cors, JsonBody, RequestLog,
                      AuthHandler options_jwts options_scope, BizHandler c, CatchError,
                      ResponseLog] None arrived res = (None, answer)
                  \<and> status answer = 401 \<and> headersSent answer))"
proof -
  have "\<exists>message. createAuthHandler E options_jwts options_scope req
            = Inl (RestErr (unauthorized message))"
  proof (cases "headers req ''authorization''")
    case None
    then show ?thesis by (auto simp: createAuthHandler_def)
  next
    case (Some a)
    show ?thesis
    proof (cases "a = [] \<or> tokenType a \<noteq> Some ''Bearer''")
      case True
      with Some show ?thesis by (auto simp: createAuthHandler_def)
    next
      case False
      with Some assms
      have "\<forall>jwts. keySet E options_jwts = Inr jwts \<longrightarrow> isl (jwtVerify E (token a) jwts)"
        by auto
      then obtain m where
        "verifyBlock E options_jwts options_scope (token a) req = Inl (JsError m)"
        using verifyBlock_fails by blast
      with Some False show ?thesis by (auto simp: createAuthHandler_def)
    qed
  qed
  then obtain message where
    m: "createAuthHandler E options_jwts options_scope req = Inl (RestErr (unauthorized message))"
    by blast
  have st: "status (catchError (RestErr (unauthorized message)) res) = 401"
    by (simp add: catchError_status unauthorized_def)
  have "\<exists>answer.
          runChain E [Cors, JsonBody, RequestLog, AuthHandler options_jwts options_scope,
              BizHandler c, CatchError, ResponseLog] None arrived res = (None, answer)
          \<and> status answer = 401 \<and> headersSent answer"
    if h: "expressJson E arrived = Inr req \<and> \<not> headersSent res" for arrived
  proof -
    from h st obtain answer where
      a: "send E req res (catchError (RestErr (unauthorized message)) res) = Inr answer"
      and "status answer = 401" and "headersSent answer"
      using send_error_status [of res "catchError (RestErr (unauthorized message)) res" E req]
      by auto
    with private_chain_auth_error [OF _ m a] h show ?thesis by blast
  qed
  with m st show ?thesis by blast
qed

theorem auth_unauthorized_witness:
  "headers (bearer ''Bearer t-forged'') ''authorization'' = Some ''Bearer t-forged''
   \<and> keySet (exampleEnv []) ''https://idp.example/jwks''
       = Inr (RemoteJWKSet ''https://idp.example/jwks'')
   \<and> jwtVerify (exampleEnv []) (token ''Bearer t-forged'')
       (RemoteJWKSet ''https://idp.example/jwks'') = Inl ''JWSSignatureVerificationFailed''
   \<and> expressJson (exampleEnv []) (bearer ''Bearer t-forged'') = Inr (bearer ''Bearer t-forged'')
   \<and> \<not> headersSent ok200
   \<and> (\<exists>message.
        createAuthHandler (exampleEnv []) ''https://idp.example/jwks'' (Some ''read:users'')
          (bearer ''Bearer t-forged'') = Inl (RestErr (unauthorized message))
        \<and> status (catchError (RestErr (unauthorized message)) ok200) = 401)
   \<and> (\<exists>answer.
        runChain (exampleEnv [])
            [Cors, JsonBody, RequestLog,
             AuthHandler ''https://idp.example/jwks'' (Some ''read:users''),
             BizHandler getUser, CatchError, ResponseLog] None (bearer ''Bearer t-forged'') ok200
           = (None, answer)
        \<and> status answer = 401)"
proof -
  have k: "keySet (exampleEnv []) ''https://idp.example/jwks''
            = Inr (RemoteJWKSet ''https://idp.example/jwks'')"
    by (simp add: keySet_def exampleEnv_def)
  have v: "jwtVerify (exampleEnv []) (token ''Bearer t-forged'')
            (RemoteJWKSet ''https://idp.example/jwks'') = Inl ''JWSSignatureVerificationFailed''"
    by (simp add: exampleEnv_def exampleVerify_def token_def)
  have h: "headers (bearer ''Bearer t-forged'') ''authorization'' = Some ''Bearer t-forged''"
    by (simp add: bearer_def)
  have p: "expressJson (exampleEnv []) (bearer ''Bearer t-forged'')
             = Inr (bearer ''Bearer t-forged'')"
    by (simp add: expressJson_def bearer_def)
  have u: "\<not> headersSent ok200" by (simp add: ok200_def)
  have "headers (bearer ''Bearer t-forged'') ''authorization'' = None
     \<or> (\<exists>a. headers (bearer ''Bearer t-forged'') ''authorization'' = Some a
            \<and> tokenType a \<noteq> Some ''Bearer'')
     \<or> (\<exists>a. headers (bearer ''Bearer t-forged'') ''authorization'' = Some a
          \<and> (\<forall>jwts. keySet (exampleEnv []) ''https://idp.example/jwks'' = Inr jwts
                \<longrightarrow> isl (jwtVerify (exampleEnv []) (token a) jwts)))"
    using h k v by simp
  from auth_unauthorized [OF this, where res = ok200 and c = getUser
      and options_scope = "Some ''read:users''"] p u
  have "(\<exists>message.
        createAuthHandler (exampleEnv []) ''https://idp.example/jwks'' (Some ''read:users'')
          (bearer ''Bearer t-forged'') = Inl (RestErr (unauthorized message))
        \<and> status (catchError (RestErr (unauthorized message)) ok200) = 401)
   \<and> (\<exists>answer.
        runChain (exampleEnv [])
            [Cors, JsonBody, RequestLog,
             AuthHandler ''https://idp.example/jwks'' (Some ''read:users''),
             BizHandler getUser, CatchError, ResponseLog] None (bearer ''Bearer t-forged'') ok200
           = (None, answer)
        \<and> status answer = 401)"
    by blast
  with h k v p u show ?thesis by blast
qed

text \<open>
  C1 as first stated fails for a request that carries a malformed JSON entity: the body
  parser, registered before the auth handler, passes its error on, the auth handler does
  not run, and \<^verbatim>\<open>catchError\<close> answers 500, whatever the \<^verbatim>\<open>Authorization\<close> header.
\<close>

theorem malformed_body_counterexample:
  "headers (carrying ''PATCH'' Map.empty (Some ''{'')) ''authorization'' = None
   \<and> expressJson (exampleEnv []) (carrying ''PATCH'' Map.empty (Some ''{''))
       = Inl (JsError ''SyntaxError: Unexpected end of JSON input'')
   \<and> runChain (exampleEnv [])
        [Cors, JsonBody, RequestLog, AuthHandler ''https://idp.example/jwks'' (Some ''write:users''),
         BizHandler patchUser, CatchError, ResponseLog] None
        (carrying ''PATCH'' Map.empty (Some ''{'')) ok200
      = (None, \<lparr>status = 500,
                jsonBody = Some (JObj [(''error'', JObj [(''message'', JStr ''Internal error.'')])]),
                headersSent = True\<rparr>)"
  by (simp add: carrying_def expressJson_def exampleEnv_def eveText_def send_def fresh_def
        catchError_def ok200_def bodyless_def)

section \<open>The source of the key set\<close>

text \<open>
  C3. A configured value that starts with \<^verbatim>\<open>http\<close> is used as the URL of a remote key set
  (\<open>keySet\<close> above, first branch). For any other configured value the claim does not hold
  of the code: line 26 parses the unassigned variable \<^verbatim>\<open>jwts\<close> of line 22, not
  \<^verbatim>\<open>options.jwts\<close>, so \<^verbatim>\<open>JSON.parse\<close> throws, no local key set is ever built, and the handler
  answers every request with an Unauthorized error, also a request whose token the inline
  key set would verify.
\<close>

theorem inline_jwks_never_parsed:
  assumes "\<not> prefix ''http'' options_jwts"
  shows "keySet E options_jwts = Inl (JsError ''SyntaxError: undefined is not valid JSON'')
       \<and> (\<exists>message. createAuthHandler E options_jwts options_scope req
              = Inl (RestErr (unauthorized message)))"
proof -
  from assms
  have k: "keySet E options_jwts = Inl (JsError ''SyntaxError: undefined is not valid JSON'')"
    by (simp add: keySet_def JSON_parse_def)
  then have v: "verifyBlock E options_jwts options_scope tok req
                  = Inl (JsError ''SyntaxError: undefined is not valid JSON'')" for tok
    by (simp add: verifyBlock_def)
  have "\<exists>message. createAuthHandler E options_jwts options_scope req
              = Inl (RestErr (unauthorized message))"
    by (cases "headers req ''authorization''") (auto simp: createAuthHandler_def v)
  with k show ?thesis by blast
qed

theorem inline_jwks_never_parsed_witness:
  "\<not> prefix ''http'' inlineJwks
   \<and> jsonParse (exampleEnv []) inlineJwks = Inr inlineDoc
   \<and> jwtVerify (exampleEnv []) (token ''Bearer t-reader'') (LocalJWKSet inlineDoc)
       = Inr readerPayload
   \<and> keySet (exampleEnv []) inlineJwks
       = Inl (JsError ''SyntaxError: undefined is not valid JSON'')
   \<and> createAuthHandler (exampleEnv []) inlineJwks None (bearer ''Bearer t-reader'')
       = Inl (RestErr (unauthorized JUndefined))"
proof -
  have p: "\<not> prefix ''http'' inlineJwks" by (simp add: inlineJwks_def)
  have j: "jsonParse (exampleEnv []) inlineJwks = Inr inlineDoc" by (simp add: exampleEnv_def)
  have v: "jwtVerify (exampleEnv []) (token ''Bearer t-reader'') (LocalJWKSet inlineDoc)
       = Inr readerPayload"
    by (simp add: example_tokens example_verify)
  from inline_jwks_never_parsed [OF p, of "exampleEnv []" None "bearer ''Bearer t-reader''"]
  have k: "keySet (exampleEnv []) inlineJwks
             = Inl (JsError ''SyntaxError: undefined is not valid JSON'')"
    by blast
  then have "createAuthHandler (exampleEnv []) inlineJwks None (bearer ''Bearer t-reader'')
       = Inl (RestErr (unauthorized JUndefined))"
    by (simp add: createAuthHandler_def verifyBlock_def example_bearer example_tokens)
  with p j v k show ?thesis by blast
qed

section \<open>Scope authorization\<close>

text \<open>
  C4, as amended. For a request that reaches the auth handler with a token that has been
  verified: the auth handler lets the request pass if and only if the required scope is
  unset, is the empty string, or is a member of the token's scope sequence; and when the
  required scope is a non-empty string that is not in the token's scope sequence, the
  handler throws Forbidden, whose status is 403, and for every request to the private route
  that the body parser passes on as this one (it carries no JSON entity, or one that parses),
  the response, not sent before, is sent with status 403.
\<close>

theorem scope_authorization:
  assumes "headers req ''authorization'' = Some a" and "a \<noteq> []"
    and "tokenType a = Some ''Bearer''"
    and "keySet E j = Inr jwts" and "jwtVerify E (token a) jwts = Inr payload"
    and "tokenScopes = map_option (js_split CHR '' '') (payload_scope payload)"
  shows "((\<exists>req'. createAuthHandler E j requiredScope req = Inr req')
          \<longleftrightarrow> requiredScope = None \<or> requiredScope = Some []
              \<or> (\<exists>sc. requiredScope = Some sc \<and> js_includes tokenScopes sc))
       \<and> (\<forall>sc. requiredScope = Some sc \<and> sc \<noteq> [] \<and> \<not> js_includes tokenScopes sc
            \<longrightarrow> createAuthHandler E j requiredScope req = Inl (RestErr forbidden)
              \<and> status (catchError (RestErr forbidden) res) = 403
              \<and> (\<forall>arrived. expressJson E arrived = Inr req \<and> \<not> headersSent res \<longrightarrow>
                    (\<exists>answer.
                       runChain E [Cors, JsonBody, RequestLog, AuthHandler j requiredScope,
                           BizHandler c, CatchError, ResponseLog] None arrived res
                         = (None, answer)
                       \<and> status answer = 403 \<and> headersSent answer)))"
proof -
  have v: "createAuthHandler E j s req =
     (if (case s of None \<Rightarrow> False | Some sc \<Rightarrow> sc \<noteq> [] \<and> \<not> js_includes tokenScopes sc)
      then Inl (RestErr forbidden)
      else Inr (req\<lparr>req_auth := Some
             \<lparr>sub = (if js_includes tokenScopes ''*:admin''
                      then personate (headers req ''x-personate-sub'') (payload_sub payload)
                      else payload_sub payload),
              name = payload_name payload, aud = payload_aud payload,
              scopes = tokenScopes\<rparr>\<rparr>))" for s
    unfolding assms(6) by (simp add: auth_verified [OF assms(1-5)] Let_def)
  have iff: "(\<exists>req'. createAuthHandler E j requiredScope req = Inr req')
          \<longleftrightarrow> requiredScope = None \<or> requiredScope = Some []
              \<or> (\<exists>sc. requiredScope = Some sc \<and> js_includes tokenScopes sc)"
    by (cases requiredScope) (auto simp: v)
  have deny: "createAuthHandler E j requiredScope req = Inl (RestErr forbidden)
              \<and> status (catchError (RestErr forbidden) res) = 403
              \<and> (\<forall>arrived. expressJson E arrived = Inr req \<and> \<not> headersSent res \<longrightarrow>
                    (\<exists>answer.
                       runChain E [Cors, JsonBody, RequestLog, AuthHandler j requiredScope,
                           BizHandler c, CatchError, ResponseLog] None arrived res
                         = (None, answer)
                       \<and> status answer = 403 \<and> headersSent answer))"
    if "requiredScope = Some sc \<and> sc \<noteq> [] \<and> \<not> js_includes tokenScopes sc" for sc
  proof -
    from that have f: "createAuthHandler E j requiredScope req = Inl (RestErr forbidden)"
      by (simp add: v)
    have st: "status (catchError (RestErr forbidden) res) = 403"
      by (simp add: catchError_def forbidden_def)
    have "\<exists>answer.
            runChain E [Cors, JsonBody, RequestLog, AuthHandler j requiredScope,
                BizHandler c, CatchError, ResponseLog] None arrived res = (None, answer)
            \<and> status answer = 403 \<and> headersSent answer"
      if h: "expressJson E arrived = Inr req \<and> \<not> headersSent res" for arrived
    proof -
      from h st obtain answer where
        a: "send E req res (catchError (RestErr forbidden) res) = Inr answer"
        and "status answer = 403" and "headersSent answer"
        using send_error_status [of res "catchError (RestErr forbidden) res" E req] by auto
      with private_chain_auth_error [OF _ f a] h show ?thesis by blast
    qed
    with f st show ?thesis by blast
  qed
  from iff deny show ?thesis by blast
qed

theorem scope_authorization_witness:
  "(\<exists>req'. createAuthHandler (exampleEnv []) ''https://idp.example/jwks'' (Some ''read:users'')
             (bearer ''Bearer t-reader'') = Inr req')
   \<and> createAuthHandler (exampleEnv []) ''https://idp.example/jwks'' (Some ''read:users'')
        (bearer ''Bearer t-writer'') = Inl (RestErr forbidden)
   \<and> status (catchError (RestErr forbidden) ok200) = 403
   \<and> expressJson (exampleEnv []) (bearer ''Bearer t-writer'') = Inr (bearer ''Bearer t-writer'')
   \<and> \<not> headersSent ok200
   \<and> (\<exists>answer.
        runChain (exampleEnv [])
          [Cors, JsonBody, RequestLog,
           AuthHandler ''https://idp.example/jwks'' (Some ''read:users''),
           BizHandler getUser, CatchError, ResponseLog] None (bearer ''Bearer t-writer'') ok200
         = (None, answer)
        \<and> status answer = 403)"
proof -
  have r: "js_includes (Some [''read:users'', ''write:users'']) ''read:users''" by simp
  have w: "\<not> js_includes (Some [''write:users'']) ''read:users''" by simp
  have p: "expressJson (exampleEnv []) (bearer ''Bearer t-writer'')
             = Inr (bearer ''Bearer t-writer'')"
    by (simp add: expressJson_def bearer_def)
  have u: "\<not> headersSent ok200" by (simp add: ok200_def)
  from scope_authorization [OF example_bearer(1) _ example_tokens(3) example_keySet _
      example_scopes(2) [symmetric], of "[]" "Some ''read:users''"] r
  have 1: "\<exists>req'. createAuthHandler (exampleEnv []) ''https://idp.example/jwks''
             (Some ''read:users'') (bearer ''Bearer t-reader'') = Inr req'"
    by (simp add: example_tokens example_verify)
  have vw: "jwtVerify (exampleEnv []) (token ''Bearer t-writer'')
              (RemoteJWKSet ''https://idp.example/jwks'') = Inr writerPayload"
    by (simp add: example_tokens example_verify)
  have ne: "''Bearer t-writer'' \<noteq> []" by simp
  from scope_authorization [OF example_bearer(1) ne example_tokens(5) example_keySet vw
      example_scopes(3) [symmetric], where requiredScope = "Some ''read:users''"
      and res = ok200 and c = getUser] w p u
  have 2: "createAuthHandler (exampleEnv []) ''https://idp.example/jwks'' (Some ''read:users'')
        (bearer ''Bearer t-writer'') = Inl (RestErr forbidden)
   \<and> status (catchError (RestErr forbidden) ok200) = 403
   \<and> (\<exists>answer.
        runChain (exampleEnv [])
          [Cors, JsonBody, RequestLog,
           AuthHandler ''https://idp.example/jwks'' (Some ''read:users''),
           BizHandler getUser, CatchError, ResponseLog] None (bearer ''Bearer t-writer'') ok200
         = (None, answer)
        \<and> status answer = 403)"
    by blast
  from 1 2 p u show ?thesis by blast
qed

text \<open>
  C4 as first stated fails in two ways. A required scope that is set to the empty string is
  not in the scope sequence of the token, and yet the handler lets the request pass. And a
  request whose token lacks the required scope but which carries a malformed JSON entity is
  answered 500: the body parser, registered before the auth handler, passes its error on
  and the auth handler does not run.
\<close>

theorem empty_required_scope_counterexample:
  "jwtVerify (exampleEnv []) (token ''Bearer t-writer'') (RemoteJWKSet ''https://idp.example/jwks'')
     = Inr writerPayload
   \<and> map_option (js_split CHR '' '') (payload_scope writerPayload) = Some [''write:users'']
   \<and> \<not> js_includes (Some [''write:users'']) ''''
   \<and> createAuthHandler (exampleEnv []) ''https://idp.example/jwks'' (Some '''')
        (bearer ''Bearer t-writer'')
      = Inr ((bearer ''Bearer t-writer'')\<lparr>req_auth := Some
           \<lparr>sub = ''carol'', name = ''Carol'', aud = ''api'', scopes = Some [''write:users'']\<rparr>\<rparr>)
   \<and> createAuthHandler (exampleEnv []) ''https://idp.example/jwks'' (Some '''')
        (bearer ''Bearer t-writer'') \<noteq> Inl (RestErr forbidden)
   \<and> \<not> js_includes (Some [''write:users'']) ''read:users''
   \<and> runChain (exampleEnv [])
        [Cors, JsonBody, RequestLog, AuthHandler ''https://idp.example/jwks'' (Some ''read:users''),
         BizHandler getUser, CatchError, ResponseLog] None
        (carrying ''PATCH'' [''authorization'' \<mapsto> ''Bearer t-writer''] (Some ''{'')) ok200
      = (None, \<lparr>status = 500,
                jsonBody = Some (JObj [(''error'', JObj [(''message'', JStr ''Internal error.'')])]),
                headersSent = True\<rparr>)"
proof -
  have "createAuthHandler (exampleEnv []) ''https://idp.example/jwks'' (Some '''')
        (bearer ''Bearer t-writer'')
      = Inr ((bearer ''Bearer t-writer'')\<lparr>req_auth := Some
           \<lparr>sub = ''carol'', name = ''Carol'', aud = ''api'', scopes = Some [''write:users'']\<rparr>\<rparr>)"
    by (simp add: auth_verified [OF example_bearer(1) _ example_tokens(5) example_keySet]
          example_tokens example_verify example_scopes writerPayload_def)
  moreover have "runChain (exampleEnv [])
        [Cors, JsonBody, RequestLog, AuthHandler ''https://idp.example/jwks'' (Some ''read:users''),
         BizHandler getUser, CatchError, ResponseLog] None
        (carrying ''PATCH'' [''authorization'' \<mapsto> ''Bearer t-writer''] (Some ''{'')) ok200
      = (None, \<lparr>status = 500,
                jsonBody = Some (JObj [(''error'', JObj [(''message'', JStr ''Internal error.'')])]),
                headersSent = True\<rparr>)"
    by (simp add: carrying_def expressJson_def exampleEnv_def eveText_def send_def fresh_def
          catchError_def ok200_def bodyless_def)
  ultimately show ?thesis
    by (simp add: example_tokens example_verify example_scopes)
qed

section \<open>Impersonation\<close>

text \<open>
  C2, as amended. For a request whose token has been verified and passes the scope check, the
  handler attaches an auth context. If the token's scopes include \<^verbatim>\<open>*:admin\<close>, its subject is
  the value of the header \<^verbatim>\<open>x-personate-sub\<close> when that header carries a non-empty value, and
  the token's own \<^verbatim>\<open>sub\<close> claim when the header is absent or its value is empty; without
  \<^verbatim>\<open>*:admin\<close> the subject is always the token's own \<^verbatim>\<open>sub\<close> claim.
\<close>

theorem impersonation:
  assumes "headers req ''authorization'' = Some a" and "a \<noteq> []"
    and "tokenType a = Some ''Bearer''"
    and "keySet E j = Inr jwts" and "jwtVerify E (token a) jwts = Inr payload"
    and "tokenScopes = map_option (js_split CHR '' '') (payload_scope payload)"
    and "requiredScope = None \<or> requiredScope = Some []
          \<or> (\<exists>sc. requiredScope = Some sc \<and> js_includes tokenScopes sc)"
  shows "\<exists>req' ctx. createAuthHandler E j requiredScope req = Inr req'
       \<and> req_auth req' = Some ctx
       \<and> (js_includes tokenScopes ''*:admin'' \<longrightarrow>
            (\<forall>x. headers req ''x-personate-sub'' = Some x \<and> x \<noteq> [] \<longrightarrow> sub ctx = x)
          \<and> (headers req ''x-personate-sub'' = None \<longrightarrow> sub ctx = payload_sub payload)
          \<and> (headers req ''x-personate-sub'' = Some [] \<longrightarrow> sub ctx = payload_sub payload))
       \<and> (\<not> js_includes tokenScopes ''*:admin'' \<longrightarrow> sub ctx = payload_sub payload)"
proof -
  have v: "createAuthHandler E j s req =
     (if (case s of None \<Rightarrow> False | Some sc \<Rightarrow> sc \<noteq> [] \<and> \<not> js_includes tokenScopes sc)
      then Inl (RestErr forbidden)
      else Inr (req\<lparr>req_auth := Some
             \<lparr>sub = (if js_includes tokenScopes ''*:admin''
                      then personate (headers req ''x-personate-sub'') (payload_sub payload)
                      else payload_sub payload),
              name = payload_name payload, aud = payload_aud payload,
              scopes = tokenScopes\<rparr>\<rparr>))" for s
    unfolding assms(6) by (simp add: auth_verified [OF assms(1-5)] Let_def)
  from assms(7)
  have pass: "\<not> (case requiredScope of None \<Rightarrow> False
                 | Some sc \<Rightarrow> sc \<noteq> [] \<and> \<not> js_includes tokenScopes sc)"
    by auto
  let ?ctx = "\<lparr>sub = (if js_includes tokenScopes ''*:admin''
                      then personate (headers req ''x-personate-sub'') (payload_sub payload)
                      else payload_sub payload),
              name = payload_name payload, aud = payload_aud payload, scopes = tokenScopes\<rparr>"
  from pass have r: "createAuthHandler E j requiredScope req = Inr (req\<lparr>req_auth := Some ?ctx\<rparr>)"
    by (simp only: v if_False)
  have "req_auth (req\<lparr>req_auth := Some ?ctx\<rparr>) = Some ?ctx" by simp
  moreover have "js_includes tokenScopes ''*:admin'' \<longrightarrow>
            (\<forall>x. headers req ''x-personate-sub'' = Some x \<and> x \<noteq> [] \<longrightarrow> sub ?ctx = x)
          \<and> (headers req ''x-personate-sub'' = None \<longrightarrow> sub ?ctx = payload_sub payload)
          \<and> (headers req ''x-personate-sub'' = Some [] \<longrightarrow> sub ?ctx = payload_sub payload)"
    by (simp add: personate_def)
  moreover have "\<not> js_includes tokenScopes ''*:admin'' \<longrightarrow> sub ?ctx = payload_sub payload"
    by simp
  ultimately show ?thesis
    using r by (intro exI [of _ "req\<lparr>req_auth := Some ?ctx\<rparr>"] exI [of _ ?ctx] conjI)
qed

theorem impersonation_witness:
  "js_includes (map_option (js_split CHR '' '') (payload_scope adminPayload)) ''*:admin''
   \<and> headers (personating ''Bearer t-admin'' ''dave'') ''x-personate-sub'' = Some ''dave''
   \<and> (\<exists>req' ctx.
         createAuthHandler (exampleEnv []) ''https://idp.example/jwks'' (Some ''read:users'')
           (personating ''Bearer t-admin'' ''dave'') = Inr req'
         \<and> req_auth req' = Some ctx \<and> sub ctx = ''dave'')
   \<and> (\<exists>req' ctx.
         createAuthHandler (exampleEnv []) ''https://idp.example/jwks'' (Some ''read:users'')
           (bearer ''Bearer t-admin'') = Inr req'
         \<and> req_auth req' = Some ctx \<and> sub ctx = payload_sub adminPayload)
   \<and> (\<exists>req' ctx.
         createAuthHandler (exampleEnv []) ''https://idp.example/jwks'' (Some ''read:users'')
           (personating ''Bearer t-admin'' []) = Inr req'
         \<and> req_auth req' = Some ctx \<and> sub ctx = payload_sub adminPayload)
   \<and> (\<exists>req' ctx.
         createAuthHandler (exampleEnv []) ''https://idp.example/jwks'' (Some ''read:users'')
           (personating ''Bearer t-reader'' ''dave'') = Inr req'
         \<and> req_auth req' = Some ctx \<and> sub ctx = payload_sub readerPayload)"
proof -
  have a: "js_includes (Some [''read:users'', ''*:admin'']) ''*:admin''" by simp
  have r: "\<not> js_includes (Some [''read:users'', ''write:users'']) ''*:admin''" by simp
  have sa: "Some ''read:users'' = None \<or> Some ''read:users'' = Some []
          \<or> (\<exists>sc. Some ''read:users'' = Some sc
                 \<and> js_includes (Some [''read:users'', ''*:admin'']) sc)" by simp
  have sr: "Some ''read:users'' = None \<or> Some ''read:users'' = Some []
          \<or> (\<exists>sc. Some ''read:users'' = Some sc
                 \<and> js_includes (Some [''read:users'', ''write:users'']) sc)" by simp
  have va: "jwtVerify (exampleEnv []) (token ''Bearer t-admin'')
              (RemoteJWKSet ''https://idp.example/jwks'') = Inr adminPayload"
    by (simp add: example_tokens example_verify)
  have vr: "jwtVerify (exampleEnv []) (token ''Bearer t-reader'')
              (RemoteJWKSet ''https://idp.example/jwks'') = Inr readerPayload"
    by (simp add: example_tokens example_verify)
  have ne: "''Bearer t-admin'' \<noteq> []" "''Bearer t-reader'' \<noteq> []" by simp_all
  from impersonation [OF example_bearer(3) ne(1) example_tokens(1) example_keySet va
      example_scopes(1) [symmetric] sa, of "''dave''"] a
  have 1: "\<exists>req' ctx.
         createAuthHandler (exampleEnv []) ''https://idp.example/jwks'' (Some ''read:users'')
           (personating ''Bearer t-admin'' ''dave'') = Inr req'
         \<and> req_auth req' = Some ctx \<and> sub ctx = ''dave''"
    by (simp add: example_bearer)
  from impersonation [OF example_bearer(1) ne(1) example_tokens(1) example_keySet va
      example_scopes(1) [symmetric] sa] a
  have 2: "\<exists>req' ctx.
         createAuthHandler (exampleEnv []) ''https://idp.example/jwks'' (Some ''read:users'')
           (bearer ''Bearer t-admin'') = Inr req'
         \<and> req_auth req' = Some ctx \<and> sub ctx = payload_sub adminPayload"
    by (simp add: example_bearer)
  from impersonation [OF example_bearer(3) ne(1) example_tokens(1) example_keySet va
      example_scopes(1) [symmetric] sa, of "[]"] a
  have 3: "\<exists>req' ctx.
         createAuthHandler (exampleEnv []) ''https://idp.example/jwks'' (Some ''read:users'')
           (personating ''Bearer t-admin'' []) = Inr req'
         \<and> req_auth req' = Some ctx \<and> sub ctx = payload_sub adminPayload"
    by (simp add: example_bearer)
  from impersonation [OF example_bearer(3) ne(2) example_tokens(3) example_keySet vr
      example_scopes(2) [symmetric] sr, of "''dave''"] r
  have 4: "\<exists>req' ctx.
         createAuthHandler (exampleEnv []) ''https://idp.example/jwks'' (Some ''read:users'')
           (personating ''Bearer t-reader'' ''dave'') = Inr req'
         \<and> req_auth req' = Some ctx \<and> sub ctx = payload_sub readerPayload"
    by simp
  from 1 2 3 4 a show ?thesis by (simp add: example_scopes example_bearer)
qed

text \<open>
  C2 as first stated fails for a request that carries the header with an empty value: the
  subject stays the token's own, which is not the header's value.
\<close>

theorem empty_personate_header_counterexample:
  "headers (personating ''Bearer t-admin'' '''') ''x-personate-sub'' = Some ''''
   \<and> jwtVerify (exampleEnv []) (token ''Bearer t-admin'') (RemoteJWKSet ''https://idp.example/jwks'')
       = Inr adminPayload
   \<and> js_includes (map_option (js_split CHR '' '') (payload_scope adminPayload)) ''*:admin''
   \<and> createAuthHandler (exampleEnv []) ''https://idp.example/jwks'' None
        (personating ''Bearer t-admin'' '''')
      = Inr ((personating ''Bearer t-admin'' '''')\<lparr>req_auth := Some
           \<lparr>sub = ''alice'', name = ''Alice'', aud = ''api'',
            scopes = Some [''read:users'', ''*:admin'']\<rparr>\<rparr>)
   \<and> ''alice'' \<noteq> ''''"
proof -
  have "createAuthHandler (exampleEnv []) ''https://idp.example/jwks'' None
        (personating ''Bearer t-admin'' '''')
      = Inr ((personating ''Bearer t-admin'' '''')\<lparr>req_auth := Some
           \<lparr>sub = ''alice'', name = ''Alice'', aud = ''api'',
            scopes = Some [''read:users'', ''*:admin'']\<rparr>\<rparr>)"
    by (simp add: auth_verified [OF example_bearer(3) _ example_tokens(1) example_keySet]
          example_tokens example_verify example_scopes example_bearer personate_def
          adminPayload_def)
  then show ?thesis
    by (simp add: example_tokens example_verify example_scopes example_bearer)
qed

section \<open>Dispatch\<close>

text \<open>
  C5, as amended. Let the controller's \<^verbatim>\<open>execute()\<close> return a payload \<open>P\<close> other than
  \<^verbatim>\<open>undefined\<close>, and let its class declare a success status code \<open>S\<close> from 200 to 999 other
  than 204, 205 and 304. Then, for a request that is not a \<^verbatim>\<open>HEAD\<close> request and not a
  conditional request that the response validates, and on a response not sent before, the
  dispatch handler sends a response with status \<open>S\<close> and the JSON body \<open>P\<close>; and this is the
  response of the chain of a public route for every request that the body parser passes on
  as this one.
\<close>

theorem biz_round_trip:
  assumes "execute c \<lparr>data = body req, inv_auth = req_auth req, pathParams = params req,
                       inv_rawBody = rawBody req, inv_headers = headers req\<rparr> = Inr P"
    and "successStatusCode c = S"
    and "200 \<le> S" and "S \<le> 999" and "S \<noteq> 204" and "S \<noteq> 205" and "S \<noteq> 304"
    and "P \<noteq> JUndefined"
    and "req_method req \<noteq> ''HEAD''"
    and "\<not> fresh E req (res\<lparr>status := S, jsonBody := Some P\<rparr>)"
    and "\<not> headersSent res"
  shows "\<exists>answer. createBizHandler E c req res = Inr answer
       \<and> status answer = S \<and> jsonBody answer = Some P \<and> headersSent answer
       \<and> (\<forall>arrived. expressJson E arrived = Inr req \<longrightarrow>
             runChain E [Cors, JsonBody, RequestLog, BizHandler c, CatchError, ResponseLog]
               None arrived res = (None, answer))"
proof -
  let ?answer = "res\<lparr>status := S, jsonBody := Some P, headersSent := True\<rparr>"
  from assms have b: "createBizHandler E c req res = Inr ?answer"
    by (simp add: createBizHandler_def send_def bodyless_def)
  then have "runChain E [Cors, JsonBody, RequestLog, BizHandler c, CatchError, ResponseLog]
               None arrived res = (None, ?answer)"
    if "expressJson E arrived = Inr req" for arrived
    using that by simp
  with b show ?thesis by simp
qed

theorem biz_round_trip_witness:
  "expressJson (exampleEnv []) (carrying ''POST'' Map.empty (Some eveText))
     = Inr ((carrying ''POST'' Map.empty (Some eveText))\<lparr>body := eveDoc, rawBody := Some eveText\<rparr>)
   \<and> execute createUser \<lparr>data = eveDoc, inv_auth = None, pathParams = [],
        inv_rawBody = Some eveText, inv_headers = Map.empty\<rparr> = Inr (JObj [(''created'', eveDoc)])
   \<and> successStatusCode createUser = 201
   \<and> \<not> headersSent ok200
   \<and> runChain (exampleEnv []) [Cors, JsonBody, RequestLog, BizHandler createUser,
         CatchError, ResponseLog] None (carrying ''POST'' Map.empty (Some eveText)) ok200
       = (None, \<lparr>status = 201, jsonBody = Some (JObj [(''created'', eveDoc)]),
                 headersSent = True\<rparr>)"
proof -
  let ?arrived = "carrying ''POST'' Map.empty (Some eveText)"
  let ?req = "?arrived\<lparr>body := eveDoc, rawBody := Some eveText\<rparr>"
  have p: "expressJson (exampleEnv []) ?arrived = Inr ?req"
    by (simp add: expressJson_def carrying_def exampleEnv_def)
  have e: "execute createUser \<lparr>data = body ?req, inv_auth = req_auth ?req,
             pathParams = params ?req, inv_rawBody = rawBody ?req, inv_headers = headers ?req\<rparr>
           = Inr (JObj [(''created'', eveDoc)])"
    by (simp add: createUser_def carrying_def)
  have s: "successStatusCode createUser = 201" by (simp add: createUser_def)
  have u: "\<not> headersSent ok200" by (simp add: ok200_def)
  have h: "req_method ?req \<noteq> ''HEAD''" by (simp add: carrying_def)
  have f: "\<not> fresh (exampleEnv []) ?req
             (ok200\<lparr>status := 201, jsonBody := Some (JObj [(''created'', eveDoc)])\<rparr>)"
    by (simp add: fresh_def carrying_def)
  have d: "JObj [(''created'', eveDoc)] \<noteq> JUndefined" by simp
  from biz_round_trip [OF e s _ _ _ _ _ d h f u] p
  obtain answer where
    "status answer = 201" "jsonBody answer = Some (JObj [(''created'', eveDoc)])"
    "headersSent answer"
    "runChain (exampleEnv []) [Cors, JsonBody, RequestLog, BizHandler createUser,
         CatchError, ResponseLog] None ?arrived ok200 = (None, answer)"
    by auto
  moreover from this have
    "answer = \<lparr>status = 201, jsonBody = Some (JObj [(''created'', eveDoc)]), headersSent = True\<rparr>"
    by (cases answer) simp
  ultimately show ?thesis using p e s u by (simp add: carrying_def)
qed

text \<open>
  C5 as first stated fails outside these conditions. A controller that declares 204 is
  answered without a body; one that declares 99 makes \<^verbatim>\<open>res.status\<close> throw, and the chain
  answers 500; a \<^verbatim>\<open>HEAD\<close> request is answered without a body; a conditional \<^verbatim>\<open>GET\<close> that the
  response validates is answered 304 without a body; the payload \<^verbatim>\<open>undefined\<close> gives no
  body; and on a response sent before, \<^verbatim>\<open>res.json\<close> throws.
\<close>

theorem dispatch_status_counterexample:
  "createBizHandler (exampleEnv []) touchUser (carrying ''PATCH'' Map.empty None) ok200
     = Inr \<lparr>status = 204, jsonBody = None, headersSent = True\<rparr>
   \<and> createBizHandler (exampleEnv []) oddStatus (carrying ''GET'' Map.empty None) ok200
     = Inl (JsError ''RangeError: Invalid status code'')
   \<and> runChain (exampleEnv []) [Cors, JsonBody, RequestLog, BizHandler oddStatus, CatchError,
         ResponseLog] None (carrying ''GET'' Map.empty None) ok200
     = (None, \<lparr>status = 500,
                jsonBody = Some (JObj [(''error'', JObj [(''message'', JStr ''Internal error.'')])]),
                headersSent = True\<rparr>)
   \<and> createBizHandler (exampleEnv []) getHealth (carrying ''HEAD'' Map.empty None) ok200
     = Inr \<lparr>status = 200, jsonBody = None, headersSent = True\<rparr>
   \<and> createBizHandler (exampleEnv []) getHealth
        (carrying ''GET'' [''if-none-match'' \<mapsto> ''*''] None) ok200
     = Inr \<lparr>status = 304, jsonBody = None, headersSent = True\<rparr>
   \<and> createBizHandler (exampleEnv []) getNothing (carrying ''GET'' Map.empty None) ok200
     = Inr \<lparr>status = 200, jsonBody = None, headersSent = True\<rparr>
   \<and> createBizHandler (exampleEnv []) getHealth (carrying ''GET'' Map.empty None)
        \<lparr>status = 200, jsonBody = Some (JObj [(''status'', JStr ''up'')]), headersSent = True\<rparr>
     = Inl (JsError ''Error: Cannot set headers after they are sent to the client'')"
  by (simp add: createBizHandler_def send_def fresh_def bodyless_def carrying_def ok200_def
        touchUser_def oddStatus_def getHealth_def getNothing_def exampleEnv_def expressJson_def
        catchError_def)

section \<open>The catch clause of the auth handler\<close>

text \<open>
  C10. Once the header checks have passed, a \<^verbatim>\<open>RestError\<close> thrown inside the \<^verbatim>\<open>try\<close> block
  leaves the handler unchanged, and any other error leaves it as the generic Unauthorized
  error. In particular a verified token that lacks the required scope makes the block throw
  Forbidden, the handler throws that same error, its answer has status 403, and it is not an
  Unauthorized error.
\<close>

theorem catch_clause_rethrows:
  assumes "headers req ''authorization'' = Some a" and "a \<noteq> []"
    and "tokenType a = Some ''Bearer''"
  shows "(\<forall>e. verifyBlock E j s (token a) req = Inl (RestErr e)
            \<longrightarrow> createAuthHandler E j s req = Inl (RestErr e))
       \<and> (\<forall>m. verifyBlock E j s (token a) req = Inl (JsError m)
            \<longrightarrow> createAuthHandler E j s req = Inl (RestErr (unauthorized JUndefined)))
       \<and> (\<forall>jwts payload sc.
            keySet E j = Inr jwts \<and> jwtVerify E (token a) jwts = Inr payload
            \<and> s = Some sc \<and> sc \<noteq> []
            \<and> \<not> js_includes (map_option (js_split CHR '' '') (payload_scope payload)) sc
            \<longrightarrow> verifyBlock E j s (token a) req = Inl (RestErr forbidden)
              \<and> createAuthHandler E j s req = Inl (RestErr forbidden)
              \<and> status (catchError (RestErr forbidden) res) = 403
              \<and> (\<forall>message. RestErr forbidden \<noteq> RestErr (unauthorized message)))"
proof (intro conjI allI impI)
  fix e assume "verifyBlock E j s (token a) req = Inl (RestErr e)"
  then show "createAuthHandler E j s req = Inl (RestErr e)"
    by (simp add: auth_after_header_checks [OF assms])
next
  fix m assume "verifyBlock E j s (token a) req = Inl (JsError m)"
  then show "createAuthHandler E j s req = Inl (RestErr (unauthorized JUndefined))"
    by (simp add: auth_after_header_checks [OF assms])
next
  fix jwts payload sc
  assume h: "keySet E j = Inr jwts \<and> jwtVerify E (token a) jwts = Inr payload
            \<and> s = Some sc \<and> sc \<noteq> []
            \<and> \<not> js_includes (map_option (js_split CHR '' '') (payload_scope payload)) sc"
  then have v: "verifyBlock E j s (token a) req = Inl (RestErr forbidden)"
    by (simp add: verifyBlock_verified [of E j jwts "token a" payload])
  show "verifyBlock E j s (token a) req = Inl (RestErr forbidden)" by (fact v)
  show "createAuthHandler E j s req = Inl (RestErr forbidden)"
    using v by (simp add: auth_after_header_checks [OF assms])
  show "status (catchError (RestErr forbidden) res) = 403"
    by (simp add: catchError_def forbidden_def)
  fix message
  show "RestErr forbidden \<noteq> RestErr (unauthorized message)"
    by (simp add: forbidden_def unauthorized_def)
qed

theorem catch_clause_rethrows_witness:
  "verifyBlock (exampleEnv []) ''https://idp.example/jwks'' (Some ''read:users'')
       (token ''Bearer t-writer'') (bearer ''Bearer t-writer'') = Inl (RestErr forbidden)
   \<and> createAuthHandler (exampleEnv []) ''https://idp.example/jwks'' (Some ''read:users'')
       (bearer ''Bearer t-writer'') = Inl (RestErr forbidden)
   \<and> status (catchError (RestErr forbidden) ok200) = 403
   \<and> verifyBlock (exampleEnv []) ''https://idp.example/jwks'' (Some ''read:users'')
       (token ''Bearer t-forged'') (bearer ''Bearer t-forged'')
       = Inl (JsError ''JWSSignatureVerificationFailed'')
   \<and> createAuthHandler (exampleEnv []) ''https://idp.example/jwks'' (Some ''read:users'')
       (bearer ''Bearer t-forged'') = Inl (RestErr (unauthorized JUndefined))"
proof -
  have ne: "''Bearer t-writer'' \<noteq> []" "''Bearer t-forged'' \<noteq> []" by simp_all
  have vw: "jwtVerify (exampleEnv []) (token ''Bearer t-writer'')
              (RemoteJWKSet ''https://idp.example/jwks'') = Inr writerPayload"
    by (simp add: example_tokens example_verify)
  have w: "\<not> js_includes (map_option (js_split CHR '' '') (payload_scope writerPayload))
              ''read:users''"
    by (simp add: example_scopes)
  have f: "verifyBlock (exampleEnv []) ''https://idp.example/jwks'' (Some ''read:users'')
       (token ''Bearer t-forged'') (bearer ''Bearer t-forged'')
       = Inl (JsError ''JWSSignatureVerificationFailed'')"
    by (simp add: verifyBlock_def example_keySet example_tokens example_verify)
  from catch_clause_rethrows [OF example_bearer(1) ne(1) example_tokens(5),
      of "exampleEnv []" "''https://idp.example/jwks''" "Some ''read:users''" ok200]
    example_keySet vw w
  have 1: "verifyBlock (exampleEnv []) ''https://idp.example/jwks'' (Some ''read:users'')
       (token ''Bearer t-writer'') (bearer ''Bearer t-writer'') = Inl (RestErr forbidden)
   \<and> createAuthHandler (exampleEnv []) ''https://idp.example/jwks'' (Some ''read:users'')
       (bearer ''Bearer t-writer'') = Inl (RestErr forbidden)
   \<and> status (catchError (RestErr forbidden) ok200) = 403"
    by blast
  from catch_clause_rethrows [OF example_bearer(1) ne(2) example_tokens(7),
      of "exampleEnv []" "''https://idp.example/jwks''" "Some ''read:users''" ok200] f
  have 2: "createAuthHandler (exampleEnv []) ''https://idp.example/jwks'' (Some ''read:users'')
       (bearer ''Bearer t-forged'') = Inl (RestErr (unauthorized JUndefined))"
    by blast
  from 1 2 f show ?thesis by blast
qed

section \<open>Router assembly\<close>

text \<open>
  C6. Let a controller file of the listing (its name ends in \<^verbatim>\<open>.js\<close>) have a final path segment
  that, minus the suffix and lowercased, is not one of \<^verbatim>\<open>get\<close>, \<^verbatim>\<open>post\<close>, \<^verbatim>\<open>patch\<close>. Then the
  loop body throws, for that file, the error whose message names the file, whatever has been
  registered so far; the assembly of any directory that lists the file throws and returns no
  router; and when the files listed before it have been registered, the error of the assembly
  is the one that names the file.
\<close>

theorem invalid_method_fails:
  assumes "suffix ''.js'' controllerFile"
    and "spec_method controllerFile \<notin> set allowedMethods"
  shows "registerFile E controllerDir jwts defaultScope controllerFile router
           = Inl (JsError (''The method is invalid for the file '' @ controllerFile @ ''.''))
       \<and> (controllerFile \<in> set (glob_js E controllerDir)
            \<longrightarrow> isl (createControllerRouter E controllerDir jwts defaultScope))
       \<and> (\<forall>pre post registered.
             glob_js E controllerDir = pre @ controllerFile # post
             \<and> registerFiles E controllerDir jwts defaultScope pre
                  [Use Cors, Use JsonBody, Use RequestLog] = Inr registered
             \<longrightarrow> createControllerRouter E controllerDir jwts defaultScope
                  = Inl (JsError (''The method is invalid for the file ''
                                   @ controllerFile @ ''.'')))"
proof -
  obtain computed where m: "methodOf controllerFile = Some computed"
    by (simp add: methodOf_last)
  have "computed \<notin> set allowedMethods"
  proof
    assume "computed \<in> set allowedMethods"
    with assms(1) m have "spec_method controllerFile = computed"
      by (rule method_allowed_then_spec)
    with \<open>computed \<in> set allowedMethods\<close> assms(2) show False by simp
  qed
  with m have f: "registerFile E controllerDir jwts defaultScope controllerFile r
           = Inl (JsError (''The method is invalid for the file '' @ controllerFile @ ''.''))"
    for r
    by (rule registerFile_invalid_method)
  then have "isl (registerFile E controllerDir jwts defaultScope controllerFile r)" for r
    by simp
  then have "controllerFile \<in> set (glob_js E controllerDir)
            \<Longrightarrow> isl (createControllerRouter E controllerDir jwts defaultScope)"
    by (rule createControllerRouter_fails)
  with f createControllerRouter_first_failure [OF _ _ f] show ?thesis by blast
qed

theorem invalid_method_fails_witness:
  "suffix ''.js'' ''users/put.js'' \<and> spec_method ''users/put.js'' = ''put''
   \<and> glob_js (exampleEnv [''users/post.js'', ''users/put.js'', ''health/get.js''])
        ''/app/dist/controllers/'' = [''users/post.js'', ''users/put.js'', ''health/get.js'']
   \<and> createControllerRouter (exampleEnv [''users/post.js'', ''users/put.js'', ''health/get.js''])
        ''/app/dist/controllers/'' None None
       = Inl (JsError ''The method is invalid for the file users/put.js.'')"
proof -
  let ?E = "exampleEnv [''users/post.js'', ''users/put.js'', ''health/get.js'']"
  have s: "suffix ''.js'' ''users/put.js''" by (simp add: suffix_to_prefix)
  have m: "spec_method ''users/put.js'' \<notin> set allowedMethods"
    by (simp add: example_methods allowedMethods_def)
  have g: "glob_js ?E ''/app/dist/controllers/''
             = [''users/post.js''] @ ''users/put.js'' # [''health/get.js'']"
    by (simp add: exampleEnv_def)
  have r: "registerFiles ?E ''/app/dist/controllers/'' None None [''users/post.js'']
             [Use Cors, Use JsonBody, Use RequestLog]
           = Inr ([Use Cors, Use JsonBody, Use RequestLog]
                  @ [Route ''post'' ''/users'' (BizHandler createUser)])"
    by (simp add: example_register)
  from invalid_method_fails [OF s m, where E = ?E and controllerDir = "''/app/dist/controllers/''"
      and jwts = None and defaultScope = None] g r
  have "createControllerRouter ?E ''/app/dist/controllers/'' None None
       = Inl (JsError (''The method is invalid for the file '' @ ''users/put.js'' @ ''.''))"
    by blast
  with s g show ?thesis by (simp add: example_methods)
qed

text \<open>
  C7. Let a controller file have an allowed method and load a controller that is not marked
  public, and let no JWTS configuration be supplied. Then the loop body throws, for that
  file, the error whose message identifies the route by path and method; the assembly of any
  directory that lists the file throws and returns no router; and when the files listed
  before it have been registered, the error of the assembly is the one that identifies the
  route.
\<close>

theorem private_route_needs_jwts:
  assumes "methodOf controllerFile = Some method" and "method \<in> set allowedMethods"
    and "importDefault E (controllerDir @ ''/'' @ controllerFile) = Inr c"
    and "\<not> isPublic c"
  shows "registerFile E controllerDir None defaultScope controllerFile router
           = Inl (JsError (''A JWTS configuration is required since the controller ''
                           @ urlPathOf E controllerFile @ ''/'' @ method @ '' is private.''))
       \<and> (controllerFile \<in> set (glob_js E controllerDir)
            \<longrightarrow> isl (createControllerRouter E controllerDir None defaultScope))
       \<and> (\<forall>pre post registered.
             glob_js E controllerDir = pre @ controllerFile # post
             \<and> registerFiles E controllerDir None defaultScope pre
                  [Use Cors, Use JsonBody, Use RequestLog] = Inr registered
             \<longrightarrow> createControllerRouter E controllerDir None defaultScope
                  = Inl (JsError (''A JWTS configuration is required since the controller ''
                           @ urlPathOf E controllerFile @ ''/'' @ method @ '' is private.'')))"
proof -
  have f: "registerFile E controllerDir None defaultScope controllerFile r
           = Inl (JsError (''A JWTS configuration is required since the controller ''
                           @ urlPathOf E controllerFile @ ''/'' @ method @ '' is private.''))"
    for r
    using assms by (rule registerFile_private_without_jwts)
  then have "isl (registerFile E controllerDir None defaultScope controllerFile r)" for r
    by simp
  then have "controllerFile \<in> set (glob_js E controllerDir)
            \<Longrightarrow> isl (createControllerRouter E controllerDir None defaultScope)"
    by (rule createControllerRouter_fails)
  with f createControllerRouter_first_failure [OF _ _ f] show ?thesis by blast
qed

theorem private_route_needs_jwts_witness:
  "methodOf ''users/{id}/get.js'' = Some ''get''
   \<and> importDefault (exampleEnv [''health/get.js'', ''users/{id}/get.js''])
        (''/app/dist/controllers/'' @ ''/'' @ ''users/{id}/get.js'') = Inr getUser
   \<and> \<not> isPublic getUser
   \<and> createControllerRouter (exampleEnv [''health/get.js'', ''users/{id}/get.js''])
        ''/app/dist/controllers/'' None None
       = Inl (JsError
           ''A JWTS configuration is required since the controller /users/:id/get is private.'')"
proof -
  let ?E = "exampleEnv [''health/get.js'', ''users/{id}/get.js'']"
  have a: "''get'' \<in> set allowedMethods" by (simp add: allowedMethods_def)
  have p: "\<not> isPublic getUser" by (simp add: getUser_def)
  have g: "glob_js ?E ''/app/dist/controllers/''
             = [''health/get.js''] @ ''users/{id}/get.js'' # []"
    by (simp add: exampleEnv_def)
  have r: "registerFiles ?E ''/app/dist/controllers/'' None None [''health/get.js'']
             [Use Cors, Use JsonBody, Use RequestLog]
           = Inr ([Use Cors, Use JsonBody, Use RequestLog]
                  @ [Route ''get'' ''/health'' (BizHandler getHealth)])"
    by (simp add: example_register)
  from private_route_needs_jwts [OF example_methods(1) a example_imports(1) p,
      where defaultScope = None] g r
  have "createControllerRouter ?E ''/app/dist/controllers/'' None None
       = Inl (JsError (''A JWTS configuration is required since the controller ''
                @ urlPathOf ?E ''users/{id}/get.js'' @ ''/'' @ ''get'' @ '' is private.''))"
    by blast
  with p show ?thesis by (simp add: example_methods example_paths example_imports_lit)
qed




section \<open>The error translator: statements\<close>


end
